theory Spec2Isabelle
  imports Complex_Main "HOL-Library.Multiset"
begin

section \<open>Numbers of the host language\<close>

text \<open>
  The program is TypeScript; every numeric field is a JavaScript \<open>number\<close>, an
  IEEE 754 double. A number is modelled as a not-a-number value, one of the two infinities,
  or a finite value carried as a real; the sign of zero is not modelled. The operators
  \<open>+\<close>, \<open>-\<close>, \<open>*\<close> and \<open>/\<close> below are the exact ones on the finite
  values and follow the host language elsewhere: \<open>NaN\<close> is absorbing,
  \<open>Infinity - Infinity\<close> and \<open>0 * Infinity\<close> are \<open>NaN\<close>, every comparison
  with \<open>NaN\<close> is false. The operations of the machine, which round every result to
  the nearest double, are \<open>dbl_add\<close>, \<open>dbl_sub\<close>, \<open>dbl_mul\<close> and
  \<open>dbl_div\<close> further down: the valuation of a holding, which ends in a rounding to
  an integer and so depends on the last bit, is written with them; the portfolio summary,
  the rebalancing and the yearly growth, whose results the specification states up to
  rounding, are written with the exact operators.
\<close>

datatype number = NaN | PosInf | NegInf | Fin real

definition inf_of_sign :: "real \<Rightarrow> number" where
  "inf_of_sign s = (if s > 0 then PosInf else if s < 0 then NegInf else NaN)"

instantiation number :: "{zero, one, plus, uminus, minus, times, inverse, abs, ord}"
begin

definition zero_number :: number where
  "zero_number = Fin 0"

definition one_number :: number where
  "one_number = Fin 1"

fun plus_number :: "number \<Rightarrow> number \<Rightarrow> number" where
  "plus_number NaN _ = NaN"
| "plus_number _ NaN = NaN"
| "plus_number PosInf NegInf = NaN"
| "plus_number NegInf PosInf = NaN"
| "plus_number PosInf _ = PosInf"
| "plus_number _ PosInf = PosInf"
| "plus_number NegInf _ = NegInf"
| "plus_number _ NegInf = NegInf"
| "plus_number (Fin a) (Fin b) = Fin (a + b)"

fun uminus_number :: "number \<Rightarrow> number" where
  "uminus_number NaN = NaN"
| "uminus_number PosInf = NegInf"
| "uminus_number NegInf = PosInf"
| "uminus_number (Fin a) = Fin (- a)"

definition minus_number :: "number \<Rightarrow> number \<Rightarrow> number" where
  "minus_number a b = a + (- b)"

fun times_number :: "number \<Rightarrow> number \<Rightarrow> number" where
  "times_number NaN _ = NaN"
| "times_number _ NaN = NaN"
| "times_number PosInf PosInf = PosInf"
| "times_number PosInf NegInf = NegInf"
| "times_number NegInf PosInf = NegInf"
| "times_number NegInf NegInf = PosInf"
| "times_number PosInf (Fin b) = inf_of_sign b"
| "times_number NegInf (Fin b) = inf_of_sign (- b)"
| "times_number (Fin a) PosInf = inf_of_sign a"
| "times_number (Fin a) NegInf = inf_of_sign (- a)"
| "times_number (Fin a) (Fin b) = Fin (a * b)"

fun divide_number :: "number \<Rightarrow> number \<Rightarrow> number" where
  "divide_number NaN _ = NaN"
| "divide_number _ NaN = NaN"
| "divide_number PosInf (Fin b) = (if b \<ge> 0 then PosInf else NegInf)"
| "divide_number NegInf (Fin b) = (if b \<ge> 0 then NegInf else PosInf)"
| "divide_number PosInf _ = NaN"
| "divide_number NegInf _ = NaN"
| "divide_number (Fin a) PosInf = Fin 0"
| "divide_number (Fin a) NegInf = Fin 0"
| "divide_number (Fin a) (Fin b) = (if b = 0 then inf_of_sign a else Fin (a / b))"

definition inverse_number :: "number \<Rightarrow> number" where
  "inverse_number (a::number) = divide (Fin 1) a"

fun abs_number :: "number \<Rightarrow> number" where
  "abs_number NaN = NaN"
| "abs_number PosInf = PosInf"
| "abs_number NegInf = PosInf"
| "abs_number (Fin a) = Fin \<bar>a\<bar>"

fun less_number :: "number \<Rightarrow> number \<Rightarrow> bool" where
  "less_number NaN _ = False"
| "less_number _ NaN = False"
| "less_number PosInf _ = False"
| "less_number _ PosInf = True"
| "less_number _ NegInf = False"
| "less_number NegInf _ = True"
| "less_number (Fin a) (Fin b) = (a < b)"

fun less_eq_number :: "number \<Rightarrow> number \<Rightarrow> bool" where
  "less_eq_number NaN _ = False"
| "less_eq_number _ NaN = False"
| "less_eq_number _ PosInf = True"
| "less_eq_number PosInf _ = False"
| "less_eq_number NegInf _ = True"
| "less_eq_number _ NegInf = False"
| "less_eq_number (Fin a) (Fin b) = (a \<le> b)"

instance ..

end

text \<open>\<open>a === b\<close> on numbers: \<open>NaN\<close> is not equal to itself.\<close>

definition strict_eq :: "number \<Rightarrow> number \<Rightarrow> bool" where
  "strict_eq a b = (a \<noteq> NaN \<and> a = b)"

text \<open>\<open>isNaN\<close> and the truthiness of a number (\<open>0\<close> and \<open>NaN\<close> are falsy).\<close>

definition isNaN :: "number \<Rightarrow> bool" where
  "isNaN a = (a = NaN)"

definition truthy :: "number \<Rightarrow> bool" where
  "truthy a = (a \<noteq> NaN \<and> a \<noteq> Fin 0)"

text \<open>
  \<open>Math.round\<close> rounds to the nearest integer, a tie towards plus infinity:
  \<open>floor (x + 1/2)\<close>, which is what \<^const>\<open>round\<close> computes.
\<close>

fun Math_round :: "number \<Rightarrow> number" where
  "Math_round (Fin x) = Fin (of_int (round x))"
| "Math_round n = n"

definition Math_abs :: "number \<Rightarrow> number" where
  "Math_abs n = \<bar>n\<bar>"

definition is_integer :: "number \<Rightarrow> bool" where
  "is_integer n = (case n of Fin x \<Rightarrow> x \<in> \<int> | _ \<Rightarrow> False)"

subsection \<open>Double precision\<close>

text \<open>
  A double has a significand of 53 bits and a binary exponent from \<open>-1022\<close> to
  \<open>1023\<close>, with subnormal values below. \<open>to_double x\<close> is the double nearest to
  the real \<open>x\<close>, a tie going to the even significand, and an infinity when the
  rounded value leaves the range. \<open>binary_exponent x\<close> is the integer \<open>e\<close> with
  \<open>2 ^ e \<le> |x| < 2 ^ (e + 1)\<close>.
\<close>

fun bit_length :: "nat \<Rightarrow> nat" where
  "bit_length n = (if n = 0 then 0 else Suc (bit_length (n div 2)))"

declare bit_length.simps [simp del]

definition pow2 :: "int \<Rightarrow> real" where
  "pow2 e = (if e \<ge> 0 then 2 ^ nat e else 1 / 2 ^ nat (- e))"

definition binary_exponent :: "real \<Rightarrow> int" where
  "binary_exponent x =
     (let a = \<bar>x\<bar>
      in if a \<ge> 1 then int (bit_length (nat \<lfloor>a\<rfloor>)) - 1
         else let k = int (bit_length (nat \<lfloor>1 / a\<rfloor>))
              in if a * pow2 (k - 1) \<ge> 1 then 1 - k else - k)"

definition round_even :: "real \<Rightarrow> int" where
  "round_even y =
     (let f = \<lfloor>y\<rfloor>; d = y - of_int f
      in if d < 1 / 2 then f else if d > 1 / 2 then f + 1 else if even f then f else f + 1)"

definition to_double :: "real \<Rightarrow> number" where
  "to_double x =
     (if x = 0 then Fin 0
      else let e = max (binary_exponent x - 52) (- 1074);
               r = of_int (round_even (x / pow2 e)) * pow2 e
           in if \<bar>r\<bar> \<ge> 2 ^ 1024 then (if x > 0 then PosInf else NegInf) else Fin r)"

text \<open>The result of an operation, rounded; the operations of the machine.\<close>

fun rounded :: "number \<Rightarrow> number" where
  "rounded (Fin x) = to_double x"
| "rounded n = n"

definition dbl_add :: "number \<Rightarrow> number \<Rightarrow> number" where
  "dbl_add a b = rounded (a + b)"

definition dbl_sub :: "number \<Rightarrow> number \<Rightarrow> number" where
  "dbl_sub a b = rounded (a - b)"

definition dbl_mul :: "number \<Rightarrow> number \<Rightarrow> number" where
  "dbl_mul a b = rounded (a * b)"

definition dbl_div :: "number \<Rightarrow> number \<Rightarrow> number" where
  "dbl_div a b = rounded (a / b)"

section \<open>Data model (types.ts)\<close>

text \<open>
  \<open>AssetType\<close> is a string enum: at run time its members are the strings
  \<open>'STOCK'\<close> and \<open>'BOND'\<close>, and the CSV import casts an arbitrary string
  to it without a check.
\<close>

type_synonym AssetType = string

definition STOCK :: AssetType where
  "STOCK = ''STOCK''"

definition BOND :: AssetType where
  "BOND = ''BOND''"

record Holding =
  hid :: string
  name :: string
  code :: string
  htype :: AssetType
  quantity :: number
  avgPrice :: number
  currentPrice :: number

record CalculatedHolding = Holding +
  marketValueRaw :: number
  cost :: number
  presentValue :: number
  profit :: number
  roi :: number

record DividendRecord =
  did :: string
  date :: string
  exDividendDate :: "string option"
  ticker :: string
  amount :: number
  dnote :: "string option"

record PortfolioSummary =
  totalAssets :: number
  stockValue :: number
  bondValue :: number
  cashValue :: number
  totalCost :: number
  totalProfit :: number
  totalRoi :: number
  stockRatio :: number
  bondRatio :: number

section \<open>Holding valuation (utils/calculations.ts)\<close>

text \<open>
  A decimal literal of the source denotes the double nearest to it. The arithmetic of
  these functions is the machine's: each product, sum, difference and quotient is rounded
  to a double, in the order in which the source writes them.
\<close>

definition FEE_RATE :: number where
  "FEE_RATE = to_double 0.001425"

definition FEE_DISCOUNT :: number where
  "FEE_DISCOUNT = to_double 0.28"

definition TAX_RATE_STOCK :: number where
  "TAX_RATE_STOCK = to_double 0.001"

definition TAX_RATE_BOND :: number where
  "TAX_RATE_BOND = Fin 0"

definition calculateCost :: "Holding \<Rightarrow> number" where
  "calculateCost holding =
     (let baseCost = dbl_mul (quantity holding) (avgPrice holding);
          fee = dbl_mul (dbl_mul baseCost FEE_RATE) FEE_DISCOUNT
      in Math_round (dbl_add baseCost fee))"

definition calculatePresentValue :: "Holding \<Rightarrow> number" where
  "calculatePresentValue holding =
     (let marketValue = dbl_mul (quantity holding) (currentPrice holding);
          fee = dbl_mul (dbl_mul marketValue FEE_RATE) FEE_DISCOUNT;
          tax = (if htype holding = STOCK then dbl_mul marketValue TAX_RATE_STOCK else Fin 0)
      in Math_round (dbl_sub (dbl_sub marketValue fee) tax))"

definition enrichHolding :: "Holding \<Rightarrow> CalculatedHolding" where
  "enrichHolding holding =
     (let cost' = calculateCost holding;
          presentValue' = calculatePresentValue holding;
          profit' = dbl_sub presentValue' cost';
          roi' = (if strict_eq cost' (Fin 0) then Fin 0
                  else dbl_mul (dbl_div profit' cost') (Fin 100));
          marketValueRaw' = dbl_mul (quantity holding) (currentPrice holding)
      in \<lparr> hid = hid holding, name = name holding, code = code holding,
           htype = htype holding, quantity = quantity holding,
           avgPrice = avgPrice holding, currentPrice = currentPrice holding,
           marketValueRaw = marketValueRaw', cost = cost',
           presentValue = presentValue', profit = profit', roi = roi' \<rparr>)"

section \<open>Portfolio summary (the \<open>summary\<close> memo of the application component)\<close>

text \<open>\<open>xs.reduce((sum, h) => sum + f(h), 0)\<close>\<close>

definition reduce_sum :: "('a \<Rightarrow> number) \<Rightarrow> 'a list \<Rightarrow> number" where
  "reduce_sum f xs = foldl (\<lambda>sum h. sum + f h) (Fin 0) xs"

definition summary :: "CalculatedHolding list \<Rightarrow> number \<Rightarrow> PortfolioSummary" where
  "summary calculatedHoldings cash =
     (let stockHoldings = filter (\<lambda>h. htype h = STOCK) calculatedHoldings;
          bondHoldings = filter (\<lambda>h. htype h = BOND) calculatedHoldings;
          stockValue' = reduce_sum presentValue stockHoldings;
          bondValue' = reduce_sum presentValue bondHoldings;
          totalCost' = reduce_sum cost calculatedHoldings;
          totalInvestedValue = stockValue' + bondValue';
          totalAssets' = totalInvestedValue + cash;
          totalProfit' = totalInvestedValue - totalCost';
          totalRoi' = (if strict_eq totalCost' (Fin 0) then Fin 0
                       else (totalProfit' / totalCost') * Fin 100);
          stockRatio' = (if strict_eq totalInvestedValue (Fin 0) then Fin 0
                         else (stockValue' / totalInvestedValue) * Fin 100);
          bondRatio' = (if strict_eq totalInvestedValue (Fin 0) then Fin 0
                        else (bondValue' / totalInvestedValue) * Fin 100)
      in \<lparr> totalAssets = totalAssets', stockValue = stockValue', bondValue = bondValue',
           cashValue = cash, totalCost = totalCost', totalProfit = totalProfit',
           totalRoi = totalRoi', stockRatio = stockRatio', bondRatio = bondRatio' \<rparr>)"

section \<open>Rebalancing (components/Dashboard.tsx)\<close>

record RebalanceSuggestion =
  investedTotal :: number
  diff :: number
  switchAmount :: number
  switchAction :: string
  inflowAmount :: number
  inflowType :: string

text \<open>
  The memo returns either the sentinel object \<open>{action: 'none', amount: 0, text}\<close>
  or the suggestion. The sentinel's display text is written here as its UTF-8 bytes.
\<close>

datatype rebalancing = NoPositions string number string | Suggestion RebalanceSuggestion

definition NO_POSITION_TEXT :: string where
  "NO_POSITION_TEXT =
     [CHR 0xE7, CHR 0x84, CHR 0xA1, CHR 0xE6, CHR 0x8A, CHR 0x95, CHR 0xE8, CHR 0xB3,
      CHR 0x87, CHR 0xE9, CHR 0x83, CHR 0xA8, CHR 0xE4, CHR 0xBD, CHR 0x8D]"

definition rebalancingCalculations :: "PortfolioSummary \<Rightarrow> rebalancing" where
  "rebalancingCalculations s =
     (let investedTotal' = stockValue s + bondValue s
      in if strict_eq investedTotal' (Fin 0) then NoPositions ''none'' (Fin 0) NO_POSITION_TEXT
         else
           let targetStockValue = investedTotal' * Fin 0.6;
               diff' = targetStockValue - stockValue s;
               switchAmount' = Math_abs diff';
               switchAction' = (if diff' > Fin 0 then ''buy_stock'' else ''buy_bond'');
               inflowAmount' =
                 (if diff' > Fin 0 then (targetStockValue - stockValue s) / Fin 0.4
                  else let targetBondValue = investedTotal' * Fin 0.4
                       in (targetBondValue - bondValue s) / Fin 0.6);
               inflowType' = (if diff' > Fin 0 then ''stock'' else ''bond'')
           in Suggestion \<lparr> investedTotal = investedTotal', diff = diff',
                switchAmount = switchAmount', switchAction = switchAction',
                inflowAmount = inflowAmount', inflowType = inflowType' \<rparr>)"

section \<open>Strings of the host language\<close>

text \<open>
  A string is a list of characters, one per code unit, restricted to the 8-bit range.
  \<open>is_ws\<close> is the white space (line terminators included) that \<open>trim\<close> and the
  number parsers skip.
\<close>

definition LF :: char where
  "LF = CHR 0x0A"

definition CR :: char where
  "CR = CHR 0x0D"

definition DQ :: char where
  "DQ = CHR 0x22"

definition is_ws :: "char \<Rightarrow> bool" where
  "is_ws c = (c = CHR 0x09 \<or> c = CHR 0x0A \<or> c = CHR 0x0B \<or> c = CHR 0x0C \<or> c = CHR 0x0D
              \<or> c = CHR 0x20 \<or> c = CHR 0xA0)"

definition trim :: "string \<Rightarrow> string" where
  "trim s = rev (dropWhile is_ws (rev (dropWhile is_ws s)))"

definition startsWith :: "string \<Rightarrow> string \<Rightarrow> bool" where
  "startsWith s p = (take (length p) s = p)"

definition endsWith :: "string \<Rightarrow> string \<Rightarrow> bool" where
  "endsWith s p = (length p \<le> length s \<and> drop (length s - length p) s = p)"

text \<open>\<open>s.split(d)\<close> for a one-character separator: never an empty list.\<close>

fun cons_hd :: "char \<Rightarrow> string list \<Rightarrow> string list" where
  "cons_hd c [] = [[c]]"
| "cons_hd c (l # ls) = (c # l) # ls"

fun split_on :: "char \<Rightarrow> string \<Rightarrow> string list" where
  "split_on d [] = [[]]"
| "split_on d (c # cs) = (if c = d then [] # split_on d cs else cons_hd c (split_on d cs))"

text \<open>\<open>text.split(/\r?\n/)\<close>: a line feed ends a line, and takes a carriage return
  standing right before it along.\<close>

fun split_lines :: "string \<Rightarrow> string list" where
  "split_lines [] = [[]]"
| "split_lines [c] = (if c = LF then [[], []] else [[c]])"
| "split_lines (c # d # cs) =
     (if c = LF then [] # split_lines (d # cs)
      else if c = CR \<and> d = LF then [] # split_lines cs
      else cons_hd c (split_lines (d # cs)))"


fun undouble_quotes :: "string \<Rightarrow> string" where
  "undouble_quotes [] = []"
| "undouble_quotes [c] = [c]"
| "undouble_quotes (c # d # cs) =
     (if c = DQ \<and> d = DQ then DQ # undouble_quotes cs else c # undouble_quotes (d # cs))"

text \<open>\<open>s.slice(1, -1)\<close>\<close>

definition slice_1_m1 :: "string \<Rightarrow> string" where
  "slice_1_m1 s = take (length s - 2) (drop 1 s)"

subsection \<open>Parsing numbers\<close>

definition is_digit :: "char \<Rightarrow> bool" where
  "is_digit c = (48 \<le> (of_char c :: nat) \<and> (of_char c :: nat) \<le> 57)"

definition digit_val :: "char \<Rightarrow> nat" where
  "digit_val c = of_char c - 48"

definition digits_value :: "string \<Rightarrow> nat" where
  "digits_value ds = foldl (\<lambda>acc c. 10 * acc + digit_val c) 0 ds"

definition parse_sign :: "string \<Rightarrow> bool \<times> string" where
  "parse_sign s =
     (case s of
        [] \<Rightarrow> (False, [])
      | c # r \<Rightarrow> if c = CHR ''-'' then (True, r) else if c = CHR ''+'' then (False, r)
                 else (False, s))"

text \<open>The exponent part at the head of a string, \<open>0\<close> when there is none.\<close>

definition parse_exponent :: "string \<Rightarrow> int" where
  "parse_exponent s =
     (case s of
        [] \<Rightarrow> 0
      | c # r \<Rightarrow>
          if c = CHR ''e'' \<or> c = CHR ''E''
          then (let (neg, r') = parse_sign r; es = takeWhile is_digit r'
                in if es = [] then 0
                   else if neg then - int (digits_value es) else int (digits_value es))
          else 0)"

definition scale10 :: "real \<Rightarrow> int \<Rightarrow> real" where
  "scale10 m e = (if e \<ge> 0 then m * 10 ^ nat e else m / 10 ^ nat (- e))"

text \<open>
  \<open>parseFloat\<close>: leading white space is skipped, then the longest prefix that is a
  decimal literal (sign, \<open>Infinity\<close> or digits with an optional fraction and exponent)
  is read; \<open>NaN\<close> when there is none. The value is the literal's exact value.
\<close>

definition parseFloat :: "string \<Rightarrow> number" where
  "parseFloat s =
     (let (neg, u) = parse_sign (dropWhile is_ws s)
      in if startsWith u ''Infinity'' then (if neg then NegInf else PosInf)
         else
           let ip = takeWhile is_digit u;
               r1 = dropWhile is_digit u;
               has_dot = (r1 \<noteq> [] \<and> hd r1 = CHR ''.'');
               fp = (if has_dot then takeWhile is_digit (tl r1) else []);
               r2 = (if has_dot then dropWhile is_digit (tl r1) else r1)
           in if ip = [] \<and> fp = [] then NaN
              else
                let m = real (digits_value ip) + real (digits_value fp) / 10 ^ length fp;
                    v = scale10 m (parse_exponent r2)
                in Fin (if neg then - v else v))"

text \<open>\<open>parseInt\<close> without a radix: decimal, or hexadecimal after \<open>0x\<close>.\<close>

definition is_hex_digit :: "char \<Rightarrow> bool" where
  "is_hex_digit c = (is_digit c \<or> (65 \<le> (of_char c :: nat) \<and> (of_char c :: nat) \<le> 70)
                     \<or> (97 \<le> (of_char c :: nat) \<and> (of_char c :: nat) \<le> 102))"

definition hex_val :: "char \<Rightarrow> nat" where
  "hex_val c = (if is_digit c then digit_val c
                else if (of_char c :: nat) \<le> 70 then of_char c - 55 else of_char c - 87)"

definition parseInt :: "string \<Rightarrow> number" where
  "parseInt s =
     (let (neg, u) = parse_sign (dropWhile is_ws s)
      in if startsWith u ''0x'' \<or> startsWith u ''0X''
         then (let ds = takeWhile is_hex_digit (drop 2 u)
               in if ds = [] then NaN
                  else let v = real (foldl (\<lambda>acc c. 16 * acc + hex_val c) 0 ds)
                       in Fin (if neg then - v else v))
         else (let ds = takeWhile is_digit u
               in if ds = [] then NaN
                  else let v = real (digits_value ds) in Fin (if neg then - v else v)))"

subsection \<open>Formatting numbers and reading dates\<close>

text \<open>
  Three functions of the host language are parameters of the model:
  \<open>numToString\<close> is the conversion of a number to a string in a template literal and in
  \<open>toString()\<close>, \<open>toFixed d\<close> is \<open>Number.prototype.toFixed(d)\<close>, and
  \<open>getFullYear\<close> is \<open>new Date(s).getFullYear()\<close>.
\<close>

record host =
  numToString :: "number \<Rightarrow> string"
  toFixed :: "nat \<Rightarrow> number \<Rightarrow> string"
  getFullYear :: "string \<Rightarrow> number"

text \<open>
  \<open>xs.sort(cmp)\<close>: the sort is stable; it is modelled as the stable insertion sort, which
  is what every conforming sort computes when the comparator is a consistent ordering.
  A comparator result that is not positive (\<open>NaN\<close> included) leaves the pair in order.
\<close>

fun js_insert :: "('a \<Rightarrow> 'a \<Rightarrow> number) \<Rightarrow> 'a \<Rightarrow> 'a list \<Rightarrow> 'a list" where
  "js_insert cmp x [] = [x]"
| "js_insert cmp x (y # ys) = (if Fin 0 < cmp x y then y # js_insert cmp x ys else x # y # ys)"

definition js_sort :: "('a \<Rightarrow> 'a \<Rightarrow> number) \<Rightarrow> 'a list \<Rightarrow> 'a list" where
  "js_sort cmp xs = foldr (js_insert cmp) xs []"

text \<open>\<open>xs.indexOf(x)\<close>, \<open>-1\<close> when absent.\<close>

fun indexOf :: "'a list \<Rightarrow> 'a \<Rightarrow> int" where
  "indexOf [] x = - 1"
| "indexOf (y # ys) x = (if y = x then 0 else (let i = indexOf ys x in if i = - 1 then - 1 else i + 1))"

text \<open>\<open>v || 0\<close> for a number that may be \<open>undefined\<close>.\<close>

definition or_zero :: "number option \<Rightarrow> number" where
  "or_zero v = (case v of None \<Rightarrow> Fin 0 | Some x \<Rightarrow> if truthy x then x else Fin 0)"

section \<open>Application state and derived holdings (the application component)\<close>

record app_state =
  holdings :: "Holding list"
  cash :: number
  dividendRecords :: "DividendRecord list"

definition customOrder :: "string list" where
  "customOrder = [''0050'', ''0056'', ''00919'', ''00679B'', ''00720B'', ''00937B'']"

definition compareCustomOrder :: "CalculatedHolding \<Rightarrow> CalculatedHolding \<Rightarrow> number" where
  "compareCustomOrder a b =
     (let indexA = indexOf customOrder (code a);
          indexB = indexOf customOrder (code b)
      in if indexA \<noteq> - 1 \<and> indexB \<noteq> - 1 then Fin (of_int (indexA - indexB))
         else if indexA \<noteq> - 1 then Fin (- 1)
         else if indexB \<noteq> - 1 then Fin 1
         else Fin 0)"

definition calculatedHoldings :: "Holding list \<Rightarrow> CalculatedHolding list" where
  "calculatedHoldings hs = js_sort compareCustomOrder (map enrichHolding hs)"

section \<open>CSV export (\<open>handleExportCSV\<close>)\<close>







definition yearly_row :: "host \<Rightarrow> (number \<times> number) list \<Rightarrow> number list \<Rightarrow> nat \<Rightarrow> string" where
  "yearly_row H m years index =
     (let year = years ! index;
          amount' = or_zero (map_of m year);
          (growthStr, diffStr) =
            (if index > 0
             then let prevYear = years ! (index - 1);
                      prevAmount = or_zero (map_of m prevYear);
                      diff' = amount' - prevAmount
                  in (if prevAmount > Fin 0
                      then toFixed H 2 (((amount' - prevAmount) / prevAmount) * Fin 100) @ ''%''
                      else ''-'',
                      numToString H diff')
             else (''-'', ''-''))
      in numToString H year @ '','' @ numToString H amount' @ '','' @ growthStr @ '',''
         @ diffStr)"


section \<open>CSV import (\<open>handleImportCSV\<close>)\<close>

record parse_state =
  curSection :: string
  tempCash :: "number option"
  tempHoldings :: "Holding list"
  tempDividends :: "DividendRecord list"

definition initial_parse_state :: parse_state where
  "initial_parse_state = \<lparr> curSection = [], tempCash = None, tempHoldings = [], tempDividends = [] \<rparr>"

text \<open>The index of the fourth comma of a line, \<open>None\<close> for the source's \<open>-1\<close>.\<close>

fun fourth_comma :: "string \<Rightarrow> nat \<Rightarrow> nat \<Rightarrow> nat option" where
  "fourth_comma [] i commaCount = None"
| "fourth_comma (c # cs) i commaCount =
     (if c = CHR '',''
      then (if commaCount + 1 = 4 then Some i else fourth_comma cs (i + 1) (commaCount + 1))
      else fourth_comma cs (i + 1) commaCount)"

definition import_holding_line :: "parse_state \<Rightarrow> string \<Rightarrow> parse_state" where
  "import_holding_line ps trimmed =
     (if startsWith trimmed ''id,'' then ps
      else let parts = split_on (CHR '','') trimmed
           in if length parts \<ge> 7
              then ps\<lparr> tempHoldings := tempHoldings ps @
                     [\<lparr> hid = parts ! 0, name = parts ! 1, code = parts ! 2, htype = parts ! 3,
                        quantity = parseFloat (parts ! 4), avgPrice = parseFloat (parts ! 5),
                        currentPrice = parseFloat (parts ! 6) \<rparr>] \<rparr>
              else ps)"

definition import_dividend_line :: "parse_state \<Rightarrow> string \<Rightarrow> parse_state" where
  "import_dividend_line ps trimmed =
     (if startsWith trimmed ''id,'' then ps
      else case fourth_comma trimmed 0 0 of
             None \<Rightarrow> ps
           | Some splitIndex \<Rightarrow>
               let firstPart = take splitIndex trimmed;
                   parts = split_on (CHR '','') firstPart;
                   note0 = drop (splitIndex + 1) trimmed;
                   note' = (if startsWith note0 [DQ] \<and> endsWith note0 [DQ]
                            then undouble_quotes (slice_1_m1 note0) else note0)
               in if length parts = 4
                  then ps\<lparr> tempDividends := tempDividends ps @
                         [\<lparr> did = parts ! 0, date = parts ! 1, exDividendDate = None,
                            ticker = parts ! 2, amount = parseFloat (parts ! 3),
                            dnote = Some note' \<rparr>] \<rparr>
                  else ps)"

definition import_line :: "parse_state \<Rightarrow> string \<Rightarrow> parse_state" where
  "import_line ps line =
     (let trimmed = trim line
      in if trimmed = [] then ps
         else if trimmed = ''[SUMMARY]'' then ps\<lparr> curSection := ''SUMMARY'' \<rparr>
         else if trimmed = ''[CASH]'' then ps\<lparr> curSection := ''CASH'' \<rparr>
         else if trimmed = ''[HOLDINGS]'' then ps\<lparr> curSection := ''HOLDINGS'' \<rparr>
         else if trimmed = ''[DIVIDENDS]'' then ps\<lparr> curSection := ''DIVIDENDS'' \<rparr>
         else if trimmed = ''[YEARLY_PERFORMANCE]'' then ps\<lparr> curSection := ''YEARLY_PERFORMANCE'' \<rparr>
         else if curSection ps = ''SUMMARY'' \<or> curSection ps = ''YEARLY_PERFORMANCE'' then ps
         else if curSection ps = ''CASH''
         then (let val = parseFloat trimmed
               in if \<not> isNaN val then ps\<lparr> tempCash := Some val \<rparr> else ps)
         else if curSection ps = ''HOLDINGS'' then import_holding_line ps trimmed
         else if curSection ps = ''DIVIDENDS'' then import_dividend_line ps trimmed
         else ps)"

definition parse_csv :: "string \<Rightarrow> parse_state" where
  "parse_csv text = foldl import_line initial_parse_state (split_lines text)"

text \<open>
  What the user sees of an import: the failure alert of the \<open>catch\<close> block, the
  success alert, or nothing more after declining the confirmation prompt. The handler is
  modelled from the text of the chosen file on: the answer to the prompt is an argument,
  and the state is the holdings, the cash and the dividend records.
\<close>

datatype import_outcome = ImportFailed | ImportSucceeded | ImportDeclined

text \<open>\<open>!tempCash\<close>: true for \<open>null\<close>, for \<open>0\<close> and for \<open>NaN\<close>.\<close>

definition not_cash :: "number option \<Rightarrow> bool" where
  "not_cash c = (case c of None \<Rightarrow> True | Some v \<Rightarrow> \<not> truthy v)"

definition handleImportCSV :: "string \<Rightarrow> bool \<Rightarrow> app_state \<Rightarrow> import_outcome \<times> app_state" where
  "handleImportCSV text confirmed st =
     (let ps = parse_csv text
      in if tempHoldings ps = [] \<and> not_cash (tempCash ps) \<and> tempDividends ps = []
         then (ImportFailed, st)
         else if confirmed
         then (ImportSucceeded,
               st\<lparr> holdings := tempHoldings ps, dividendRecords := tempDividends ps,
                   cash := (case tempCash ps of None \<Rightarrow> cash st | Some c \<Rightarrow> c) \<rparr>)
         else (ImportDeclined, st))"

section \<open>Yearly dividend performance (\<open>DividendTracker\<close>)\<close>

record trend_point =
  year :: string
  yearAmount :: number

record performance_row =
  rowYear :: string
  rowAmount :: number
  growth :: number
  rowDiff :: number
  hasPrev :: bool

fun update_first :: "('a \<Rightarrow> bool) \<Rightarrow> ('a \<Rightarrow> 'a) \<Rightarrow> 'a list \<Rightarrow> 'a list" where
  "update_first P f [] = []"
| "update_first P f (x # xs) = (if P x then f x # xs else x # update_first P f xs)"

definition add_to_year :: "trend_point list \<Rightarrow> DividendRecord \<Rightarrow> trend_point list" where
  "add_to_year acc rec =
     (let year' = (case split_on (CHR ''-'') (date rec) of [] \<Rightarrow> [] | p # _ \<Rightarrow> p)
      in case find (\<lambda>x. year x = year') acc of
           Some existing \<Rightarrow>
             update_first (\<lambda>x. year x = year')
               (\<lambda>x. x\<lparr> yearAmount := yearAmount x + amount rec \<rparr>) acc
         | None \<Rightarrow> acc @ [\<lparr> year = year', yearAmount = amount rec \<rparr>])"

definition yearlyTrendData :: "DividendRecord list \<Rightarrow> string \<Rightarrow> trend_point list" where
  "yearlyTrendData records trendTicker =
     (let filteredRecords = (if trendTicker = ''ALL'' then records
                             else filter (\<lambda>r. ticker r = trendTicker) records)
      in js_sort (\<lambda>a b. parseInt (year a) - parseInt (year b))
           (foldl add_to_year [] filteredRecords))"

definition yearlyPerformance :: "trend_point list \<Rightarrow> performance_row list" where
  "yearlyPerformance trend =
     rev (map (\<lambda>index.
            let item = trend ! index;
                prev = (if index = 0 then None else Some (trend ! (index - 1)));
                growth' = (case prev of
                             None \<Rightarrow> Fin 0
                           | Some p \<Rightarrow> if yearAmount p > Fin 0
                                       then ((yearAmount item - yearAmount p) / yearAmount p) * Fin 100
                                       else Fin 0);
                diff' = (case prev of None \<Rightarrow> Fin 0 | Some p \<Rightarrow> yearAmount item - yearAmount p)
            in \<lparr> rowYear = year item, rowAmount = yearAmount item, growth = growth',
                 rowDiff = diff', hasPrev = (prev \<noteq> None) \<rparr>)
          [0..<length trend])"

text \<open>The growth cell of the yearly table: \<open>row.hasPrev ? growth.toFixed(1) + '%' : '-'\<close>.\<close>

definition growth_cell :: "host \<Rightarrow> performance_row \<Rightarrow> string" where
  "growth_cell H row = (if hasPrev row then toFixed H 1 (growth row) @ ''%'' else ''-'')"

section \<open>Sample data\<close>

text \<open>
  Two of the initial holdings of constants.ts, names as their UTF-8 bytes and prices as the
  doubles their literals denote, a position with no units left, and a summary whose stock
  share is below the target.
\<close>

definition INITIAL_HOLDING_0050 :: Holding where
  "INITIAL_HOLDING_0050 =
     \<lparr> hid = ''1'',
       name = [CHR 0xE5, CHR 0x85, CHR 0x83, CHR 0xE5, CHR 0xA4, CHR 0xA7, CHR 0xE5, CHR 0x8F,
               CHR 0xB0, CHR 0xE7, CHR 0x81, CHR 0xA3] @ ''50'',
       code = ''0050'', htype = STOCK, quantity = Fin 22000, avgPrice = to_double 62.35,
       currentPrice = to_double 63.7 \<rparr>"

definition INITIAL_HOLDING_00679B :: Holding where
  "INITIAL_HOLDING_00679B =
     \<lparr> hid = ''3'',
       name = [CHR 0xE5, CHR 0x85, CHR 0x83, CHR 0xE5, CHR 0xA4, CHR 0xA7, CHR 0xE7, CHR 0xBE,
               CHR 0x8E, CHR 0xE5, CHR 0x82, CHR 0xB5] @ ''20''
              @ [CHR 0xE5, CHR 0xB9, CHR 0xB4],
       code = ''00679B'', htype = BOND, quantity = Fin 45000, avgPrice = to_double 27.62,
       currentPrice = to_double 27.27 \<rparr>"

definition EMPTY_POSITION :: Holding where
  "EMPTY_POSITION =
     \<lparr> hid = ''7'', name = ''Sold out'', code = ''0050'', htype = STOCK, quantity = Fin 0,
       avgPrice = to_double 62.35, currentPrice = to_double 63.7 \<rparr>"

text \<open>
  A holding whose cost lands on a tie in double precision, one whose present value does,
  and a position with no units whose average price was read from a text that is not a
  number.
\<close>

definition NEAR_TIE_HOLDING :: Holding where
  "NEAR_TIE_HOLDING =
     \<lparr> hid = ''8'', name = ''Near tie'', code = ''0051'', htype = STOCK,
       quantity = Fin 380831, avgPrice = to_double 194.71, currentPrice = to_double 194.71 \<rparr>"

definition NEAR_TIE_QUOTE :: Holding where
  "NEAR_TIE_QUOTE =
     \<lparr> hid = ''10'', name = ''Near tie quote'', code = ''0053'', htype = STOCK,
       quantity = Fin 438609, avgPrice = to_double 171.11, currentPrice = to_double 171.11 \<rparr>"

definition UNPRICED_POSITION :: Holding where
  "UNPRICED_POSITION =
     \<lparr> hid = ''9'', name = ''Unpriced'', code = ''0052'', htype = STOCK, quantity = Fin 0,
       avgPrice = NaN, currentPrice = to_double 63.7 \<rparr>"

definition TWO_CLASS_HOLDINGS :: "CalculatedHolding list" where
  "TWO_CLASS_HOLDINGS = [enrichHolding INITIAL_HOLDING_0050, enrichHolding INITIAL_HOLDING_00679B]"

definition UNDERWEIGHT_STOCK :: PortfolioSummary where
  "UNDERWEIGHT_STOCK =
     \<lparr> totalAssets = Fin 2000000, stockValue = Fin 500000, bondValue = Fin 500000,
       cashValue = Fin 1000000, totalCost = Fin 1000000, totalProfit = Fin 0,
       totalRoi = Fin 0, stockRatio = Fin 50, bondRatio = Fin 50 \<rparr>"

text \<open>
  CSV files: a cash section alone, rows that lack columns, and a row whose quantity is
  not the text of a number.
\<close>

definition ONLY_ZERO_CASH_CSV :: string where
  "ONLY_ZERO_CASH_CSV = ''[CASH]'' @ [LF] @ ''0'' @ [LF]"

definition ONLY_CASH_CSV :: string where
  "ONLY_CASH_CSV = ''[CASH]'' @ [LF] @ ''250000'' @ [LF]"

definition SHORT_ROW_CSV :: string where
  "SHORT_ROW_CSV = ''[HOLDINGS]'' @ [LF] @ ''1,A,0050,STOCK,10'' @ [LF]
                   @ ''2,B,0056,STOCK,10,2.5,3'' @ [LF]"

definition UNPARSEABLE_ROW_CSV :: string where
  "UNPARSEABLE_ROW_CSV = ''[HOLDINGS]'' @ [LF] @ ''1,A,0050,STOCK,abc,2.5,3'' @ [LF]"

definition PARTIAL_ROWS_CSV :: string where
  "PARTIAL_ROWS_CSV = ''[HOLDINGS]'' @ [LF] @ ''1,A,0050'' @ [LF]
                      @ ''[DIVIDENDS]'' @ [LF] @ ''7,2023-10-20,0056'' @ [LF]
                      @ ''8,2023-11-15,00878,12000,bonus'' @ [LF]"

text \<open>A state of the application, and dividend records whose first year totals 0.\<close>

definition SAMPLE_STATE :: app_state where
  "SAMPLE_STATE =
     \<lparr> holdings = [INITIAL_HOLDING_0050], cash = Fin 1000000,
       dividendRecords =
         [\<lparr> did = ''1'', date = ''2023-10-20'', exDividendDate = None, ticker = ''0056'',
            amount = Fin 24000, dnote = Some ''Q3'' \<rparr>] \<rparr>"

definition ZERO_THEN_100 :: "DividendRecord list" where
  "ZERO_THEN_100 =
     [\<lparr> did = ''1'', date = ''2023-06-01'', exDividendDate = None, ticker = ''0056'',
        amount = Fin 0, dnote = Some [] \<rparr>,
      \<lparr> did = ''2'', date = ''2024-06-01'', exDividendDate = None, ticker = ''0056'',
        amount = Fin 100, dnote = Some [] \<rparr>]"







section \<open>What the import can read back\<close>










section \<open>Properties of the valuation engine\<close>

subsection \<open>Arithmetic of numbers\<close>

text \<open>Addition of numbers is associative and commutative, with \<open>0\<close> neutral.\<close>

lemma number_add_assoc: "(x + y) + z = x + (y + z)" for x y z :: number
  by (cases x; cases y; cases z) simp_all

lemma number_add_commute: "x + y = y + x" for x y :: number
  by (cases x; cases y) simp_all

lemma number_zero_add: "0 + x = x" for x :: number
  by (cases x) (simp_all add: zero_number_def)

instance number :: comm_monoid_add
  by standard (rule number_add_assoc, rule number_add_commute, rule number_zero_add)

lemma fin_arith [simp]:
  "Fin a - Fin b = Fin (a - b)"
  "b \<noteq> 0 \<Longrightarrow> Fin a / Fin b = Fin (a / b)"
  "Math_abs (Fin a) = Fin \<bar>a\<bar>"
  "strict_eq (Fin a) (Fin b) = (a = b)"
  by (simp_all add: minus_number_def Math_abs_def strict_eq_def)

lemma reduce_sum_eq: "reduce_sum f xs = sum_list (map f xs)"
proof -
  have "foldl (\<lambda>s h. s + f h) a xs = a + sum_list (map f xs)" for a
    by (induction xs arbitrary: a) (simp_all add: add.assoc)
  then show ?thesis
    by (simp add: reduce_sum_def zero_number_def [symmetric])
qed

subsection \<open>Double precision\<close>

text \<open>The definitions that evaluate an operation of the machine, and the three rates.\<close>

lemmas double_defs = to_double_def binary_exponent_def round_even_def pow2_def bit_length.simps
  dbl_add_def dbl_sub_def dbl_mul_def dbl_div_def Let_def

lemma fee_constants:
  "FEE_RATE = Fin (1642913144064757 / 2 ^ 60)"
  "FEE_DISCOUNT = Fin (1261007895663739 / 2 ^ 52)"
  "TAX_RATE_STOCK = Fin (1152921504606847 / 2 ^ 60)"
  by (simp_all add: FEE_RATE_def FEE_DISCOUNT_def TAX_RATE_STOCK_def double_defs)

text \<open>
  The binary exponent brackets a number between two powers of two, and rounding to an
  integer moves a number by at most one half.
\<close>

lemma bit_length_bounds:
  "n > 0 \<Longrightarrow> 2 ^ (bit_length n - 1) \<le> n \<and> n < 2 ^ bit_length n"
proof (induction n rule: bit_length.induct)
  case (1 n)
  show ?case
  proof (cases "n div 2 = 0")
    case True
    with "1.prems" have "n = 1" by (simp add: div_eq_0_iff) 
    then show ?thesis
      by (simp add: bit_length.simps)
  next
    case False
    then have m: "n div 2 > 0" by simp
    with "1.IH" "1.prems" have ih: "2 ^ (bit_length (n div 2) - 1) \<le> n div 2"
      "n div 2 < 2 ^ bit_length (n div 2)"
      by simp_all
    from m have pos: "bit_length (n div 2) > 0"
      by (subst bit_length.simps) simp
    then have p: "(2::nat) ^ bit_length (n div 2) = 2 * 2 ^ (bit_length (n div 2) - 1)"
      by (cases "bit_length (n div 2)") simp_all
    have bl: "bit_length n = Suc (bit_length (n div 2))"
      using "1.prems" by (subst bit_length.simps) simp
    from ih p have "2 ^ bit_length (n div 2) \<le> n" by linarith
    moreover from ih have "n < 2 * 2 ^ bit_length (n div 2)" by linarith
    ultimately show ?thesis by (simp add: bl)
  qed
qed

lemma pow2_powi: "pow2 e = 2 powi e"
  by (simp add: pow2_def power_int_def field_simps)

lemma pow2_pos: "pow2 e > 0"
  by (simp add: pow2_powi)

lemma pow2_add: "pow2 (d + e) = pow2 d * pow2 e"
  by (simp add: pow2_powi power_int_add)

lemma pow2_mono: "d \<le> e \<Longrightarrow> pow2 d \<le> pow2 e"
  by (simp add: pow2_powi power_int_increasing)

lemma pow2_nat: "pow2 (int n) = 2 ^ n"
  by (simp add: pow2_def)

lemma pow2_neg_nat: "pow2 (- int n) = 1 / 2 ^ n"
  by (cases n) (simp_all add: pow2_def nat_add_distrib)

lemma nat_floor_bounds:
  assumes "y \<ge> (1::real)"
  shows "nat \<lfloor>y\<rfloor> > 0" and "real (nat \<lfloor>y\<rfloor>) \<le> y" and "y < real (nat \<lfloor>y\<rfloor>) + 1"
proof -
  from assms have f: "\<lfloor>y\<rfloor> \<ge> 1" by (simp add: le_floor_iff)
  then show "nat \<lfloor>y\<rfloor> > 0" by simp
  from f have r: "real (nat \<lfloor>y\<rfloor>) = of_int \<lfloor>y\<rfloor>" by simp
  show "real (nat \<lfloor>y\<rfloor>) \<le> y" unfolding r by (rule of_int_floor_le)
  show "y < real (nat \<lfloor>y\<rfloor>) + 1" unfolding r by linarith
qed

lemma binary_exponent_bounds:
  assumes "x \<noteq> 0"
  shows "pow2 (binary_exponent x) \<le> \<bar>x\<bar> \<and> \<bar>x\<bar> < pow2 (binary_exponent x + 1)"
proof -
  define a where "a = \<bar>x\<bar>"
  with assms have a: "a > 0" by simp
  show ?thesis
  proof (cases "a \<ge> 1")
    case True
    define n where "n = nat \<lfloor>a\<rfloor>"
    from True have n: "n > 0" "real n \<le> a" "a < real n + 1"
      unfolding n_def by (rule nat_floor_bounds)+
    from bit_length_bounds [OF n(1)]
    have b: "2 ^ (bit_length n - 1) \<le> n" "n < 2 ^ bit_length n" by simp_all
    from b(2) n(1) have k: "bit_length n > 0" by (cases "bit_length n") simp_all
    have e: "binary_exponent x = int (bit_length n - 1)"
      using True k by (simp add: binary_exponent_def a_def n_def Let_def)
    have lo: "pow2 (binary_exponent x) \<le> a"
    proof -
      have h: "(2::real) ^ (bit_length n - 1) \<le> real n"
        using b(1) by (metis of_nat_le_iff of_nat_numeral of_nat_power)
      show ?thesis
        unfolding e pow2_nat by (rule order_trans [OF h n(2)])
    qed
    have hi: "a < pow2 (binary_exponent x + 1)"
    proof -
      have "int (bit_length n - 1) + 1 = int (bit_length n)" using k by simp
      then have "pow2 (binary_exponent x + 1) = 2 ^ bit_length n"
        by (simp add: e pow2_nat)
      moreover from b(2) have "real n + 1 \<le> 2 ^ bit_length n"
        by (metis Suc_leI of_nat_Suc of_nat_le_iff of_nat_numeral of_nat_power add.commute)
      ultimately show ?thesis using n(3) by linarith
    qed
    from lo hi show ?thesis by (simp add: a_def)
  next
    case False
    define n where "n = nat \<lfloor>1 / a\<rfloor>"
    from False a have inv: "1 / a > 1" by simp
    then have "1 / a \<ge> 1" by simp
    then have n: "n > 0" "real n \<le> 1 / a" "1 / a < real n + 1"
      unfolding n_def by (rule nat_floor_bounds)+
    define k where "k = bit_length n"
    from bit_length_bounds [OF n(1)]
    have b: "2 ^ (k - 1) \<le> n" "n < 2 ^ k" by (simp_all add: k_def)
    from b(2) n(1) have k: "k > 0" by (cases k) simp_all
    have r1: "(2::real) ^ (k - 1) \<le> 1 / a"
    proof -
      have "(2::real) ^ (k - 1) \<le> real n"
        using b(1) by (metis of_nat_le_iff of_nat_numeral of_nat_power)
      with n(2) show ?thesis by linarith
    qed
    have r2: "1 / a < (2::real) ^ k"
    proof -
      from b(2) have "real n + 1 \<le> 2 ^ k"
        by (metis Suc_leI of_nat_Suc of_nat_le_iff of_nat_numeral of_nat_power add.commute)
      with n(3) show ?thesis by linarith
    qed
    from r1 a have u1: "a * 2 ^ (k - 1) \<le> 1"
      by (simp add: field_simps)
    from r2 a have u2: "1 < a * 2 ^ k"
      by (simp add: field_simps)
    have pk: "pow2 (int k - 1) = 2 ^ (k - 1)"
      using k pow2_nat [of "k - 1"] by (simp add: of_nat_diff)
    have two: "(2::real) ^ k = 2 * 2 ^ (k - 1)"
      using k by (cases k) simp_all
    show ?thesis
    proof (cases "a * pow2 (int k - 1) \<ge> 1")
      case True
      then have e: "binary_exponent x = 1 - int k"
        using False by (simp add: binary_exponent_def a_def [symmetric] n_def [symmetric]
            k_def [symmetric] Let_def)
      have p1: "pow2 (1 - int k) = 1 / 2 ^ (k - 1)"
        using k pow2_neg_nat [of "k - 1"] by (simp add: of_nat_diff)
      have p2: "pow2 (2 - int k) = 2 * pow2 (1 - int k)"
        using pow2_add [of 1 "1 - int k"] by (simp add: pow2_def)
      from True pk have "a * 2 ^ (k - 1) \<ge> 1" by simp
      with u1 have eq: "a * 2 ^ (k - 1) = 1" by simp
      then have "a = 1 / 2 ^ (k - 1)" by (simp add: field_simps)
      moreover have "1 / 2 ^ (k - 1) < 2 / (2::real) ^ (k - 1)"
        by (simp add: divide_strict_right_mono)
      ultimately show ?thesis
        by (simp add: e p1 p2 a_def [symmetric])
    next
      case no: False
      then have e: "binary_exponent x = - int k"
        using False by (simp add: binary_exponent_def a_def [symmetric] n_def [symmetric]
            k_def [symmetric] Let_def)
      have p1: "pow2 (- int k) = 1 / 2 ^ k"
        by (rule pow2_neg_nat)
      have p2: "pow2 (1 - int k) = 1 / 2 ^ (k - 1)"
        using k pow2_neg_nat [of "k - 1"] by (simp add: of_nat_diff)
      from u2 have lo: "1 / 2 ^ k \<le> a" by (simp add: field_simps)
      from no pk have "a * 2 ^ (k - 1) < 1" by simp
      then have hi: "a < 1 / 2 ^ (k - 1)" by (simp add: field_simps)
      from lo hi show ?thesis
        by (simp add: e p1 p2 a_def [symmetric])
    qed
  qed
qed

lemma round_even_error: "\<bar>of_int (round_even y) - y\<bar> \<le> 1 / 2"
proof -
  have "of_int \<lfloor>y\<rfloor> \<le> y" "y < of_int \<lfloor>y\<rfloor> + 1" by linarith+
  then show ?thesis
    by (auto simp add: round_even_def Let_def)
qed

text \<open>
  In the range of the normal doubles, rounding to a double changes a number by at most
  one part in \<open>2 ^ 53\<close>.
\<close>

lemma to_double_rel:
  assumes "x \<noteq> 0" and "pow2 (- 1022) \<le> \<bar>x\<bar>" and "\<bar>x\<bar> < pow2 1023"
  shows "\<exists>r. to_double x = Fin r \<and> \<bar>r - x\<bar> \<le> \<bar>x\<bar> / 2 ^ 53"
proof -
  define e0 where "e0 = binary_exponent x"
  from binary_exponent_bounds [OF assms(1)]
  have b: "pow2 e0 \<le> \<bar>x\<bar>" "\<bar>x\<bar> < pow2 (e0 + 1)"
    by (simp_all add: e0_def)
  have lo: "- 1022 \<le> e0"
  proof (rule ccontr)
    assume "\<not> - 1022 \<le> e0"
    then have "pow2 (e0 + 1) \<le> pow2 (- 1022)" by (intro pow2_mono) simp
    with b(2) assms(2) show False by linarith
  qed
  have hi: "e0 \<le> 1022"
  proof (rule ccontr)
    assume "\<not> e0 \<le> 1022"
    then have "pow2 1023 \<le> pow2 e0" by (intro pow2_mono) simp
    with b(1) assms(3) show False by linarith
  qed
  define e where "e = e0 - 52"
  from lo have emax: "max (binary_exponent x - 52) (- 1074) = e"
    by (simp add: e_def e0_def)
  define m where "m = round_even (x / pow2 e)"
  define r where "r = of_int m * pow2 e"
  have pe: "pow2 e > 0" by (rule pow2_pos)
  have "r - x = (of_int m - x / pow2 e) * pow2 e"
    using pe by (simp add: r_def field_simps)
  then have "\<bar>r - x\<bar> = \<bar>of_int m - x / pow2 e\<bar> * pow2 e"
    using pe by (simp add: abs_mult)
  also have "\<dots> \<le> 1 / 2 * pow2 e"
    using pe round_even_error [of "x / pow2 e"] by (intro mult_right_mono) (simp_all add: m_def)
  finally have err: "\<bar>r - x\<bar> \<le> pow2 e / 2" by simp
  have "pow2 e0 = pow2 e * pow2 52"
    using pow2_add [of e 52] by (simp add: e_def)
  then have "pow2 e / 2 = pow2 e0 / 2 ^ 53"
    by (simp add: pow2_def)
  moreover have "pow2 e0 / 2 ^ 53 \<le> \<bar>x\<bar> / 2 ^ 53"
    using b(1) by (rule divide_right_mono) simp
  ultimately have rel: "\<bar>r - x\<bar> \<le> \<bar>x\<bar> / 2 ^ 53"
    using err by linarith
  have "\<bar>x\<bar> / 2 ^ 53 \<le> \<bar>x\<bar>"
    by (simp add: field_simps)
  with rel have "\<bar>r\<bar> \<le> 2 * \<bar>x\<bar>" by linarith
  moreover have "2 * pow2 1023 = 2 ^ 1024"
    by (simp add: pow2_def)
  ultimately have small: "\<bar>r\<bar> < 2 ^ 1024"
    using assms(3) by linarith
  have "to_double x = Fin r"
    using assms(1) small
    by (simp add: to_double_def emax Let_def m_def [symmetric] r_def [symmetric])
  with rel show ?thesis by blast
qed

lemma to_double_close:
  assumes "1 / 2 ^ 100 \<le> x" and "x \<le> 2 ^ 100"
  shows "\<exists>r. to_double x = Fin r \<and> x - x / 2 ^ 53 \<le> r \<and> r \<le> x + x / 2 ^ 53"
proof -
  have "(0::real) < 1 / 2 ^ 100" by simp
  with assms(1) have pos: "x > 0" by linarith
  have "pow2 (- 1022) \<le> pow2 (- 100)" by (rule pow2_mono) simp
  also have "pow2 (- 100) = 1 / 2 ^ 100" using pow2_neg_nat [of 100] by simp
  finally have lo: "pow2 (- 1022) \<le> \<bar>x\<bar>" using assms(1) pos by simp
  have "pow2 100 \<le> pow2 1022" by (rule pow2_mono) simp
  moreover have "pow2 100 = 2 ^ 100" using pow2_nat [of 100] by simp
  moreover have "pow2 1022 < pow2 1023" by (simp add: pow2_powi)
  ultimately have hi: "\<bar>x\<bar> < pow2 1023" using assms(2) pos by simp
  from to_double_rel [OF _ lo hi] pos obtain r where "to_double x = Fin r"
    "\<bar>r - x\<bar> \<le> \<bar>x\<bar> / 2 ^ 53"
    by auto
  with pos have "to_double x = Fin r" "\<bar>r - x\<bar> \<le> x / 2 ^ 53"
    by simp_all
  then have "to_double x = Fin r \<and> x - x / 2 ^ 53 \<le> r \<and> r \<le> x + x / 2 ^ 53"
    by linarith
  then show ?thesis ..
qed

lemma round_close: "\<bar>s - t\<bar> \<le> 1 \<Longrightarrow> \<bar>round s - round (t::real)\<bar> \<le> 1"
proof -
  assume a: "\<bar>s - t\<bar> \<le> 1"
  have 1: "round (t + 1) = round t + 1" "round (s + 1) = round s + 1"
    unfolding round_def by linarith+
  from a have "s \<le> t + 1" "t \<le> s + 1" by linarith+
  then have "round s \<le> round (t + 1)" "round t \<le> round (s + 1)"
    by (simp_all add: round_mono)
  with 1 show ?thesis by linarith
qed

text \<open>
  The fee, the cost and the present value as the machine computes them from the rounded
  product \<open>x\<close> of quantity and price, against the exact amounts.
\<close>

lemma fee_close:
  assumes "1 \<le> x" and "x \<le> 2 ^ 50"
  shows "\<exists>b t. to_double x = Fin b \<and> dbl_mul (dbl_mul (Fin b) FEE_RATE) FEE_DISCOUNT = Fin t
    \<and> x - x / 2 ^ 53 \<le> b \<and> b \<le> x + x / 2 ^ 53
    \<and> x * (399 / 1000000) - x / 2 ^ 55 \<le> t \<and> t \<le> x * (399 / 1000000) + x / 2 ^ 55"
proof -
  from assms have "1 / 2 ^ 100 \<le> x" "x \<le> 2 ^ 100" by simp_all
  from to_double_close [OF this] obtain b
    where b: "to_double x = Fin b" "x - x / 2 ^ 53 \<le> b" "b \<le> x + x / 2 ^ 53"
    by blast
  from assms b(2) have b0: "0 \<le> b" by simp
  define y1 where "y1 = b * (1642913144064757 / 2 ^ 60)"
  from assms b(2,3) have "1 / 2 ^ 100 \<le> y1" "y1 \<le> 2 ^ 100" by (simp_all add: y1_def)
  from to_double_close [OF this] obtain t1
    where t1: "to_double y1 = Fin t1" "y1 - y1 / 2 ^ 53 \<le> t1" "t1 \<le> y1 + y1 / 2 ^ 53"
    by blast
  define y2 where "y2 = t1 * (1261007895663739 / 2 ^ 52)"
  from assms b(2,3) t1(2,3) have "1 / 2 ^ 100 \<le> y2" "y2 \<le> 2 ^ 100"
    by (simp_all add: y1_def y2_def)
  from to_double_close [OF this] obtain t2
    where t2: "to_double y2 = Fin t2" "y2 - y2 / 2 ^ 53 \<le> t2" "t2 \<le> y2 + y2 / 2 ^ 53"
    by blast
  have "dbl_mul (Fin b) FEE_RATE = Fin t1"
    using t1(1) by (simp add: fee_constants dbl_mul_def y1_def)
  moreover have "dbl_mul (Fin t1) FEE_DISCOUNT = Fin t2"
    using t2(1) by (simp add: fee_constants dbl_mul_def y2_def)
  ultimately have ev: "dbl_mul (dbl_mul (Fin b) FEE_RATE) FEE_DISCOUNT = Fin t2"
    by simp
  from t1(2,3) b0 have c1: "b * (1425 / 1000000 - 1 / 2 ^ 58) \<le> t1"
    "t1 \<le> b * (1425 / 1000000 + 1 / 2 ^ 58)"
    by (simp_all add: y1_def)
  with b0 have "0 \<le> t1" by simp
  with t2(2,3) have c2: "t1 * (28 / 100 - 1 / 2 ^ 50) \<le> t2"
    "t2 \<le> t1 * (28 / 100 + 1 / 2 ^ 50)"
    by (simp_all add: y2_def)
  from c1 c2 b0 have c3: "b * (399 / 1000000 - 1 / 2 ^ 56) \<le> t2"
    "t2 \<le> b * (399 / 1000000 + 1 / 2 ^ 56)"
    by simp_all
  from c3 b(2,3) assms have c4: "x * (399 / 1000000) - x / 2 ^ 55 \<le> t2"
    "t2 \<le> x * (399 / 1000000) + x / 2 ^ 55"
    by simp_all
  from b ev c4 show ?thesis by blast
qed

lemma cost_close:
  assumes "1 \<le> x" and "x \<le> 2 ^ 50"
  shows "\<exists>s. dbl_add (to_double x) (dbl_mul (dbl_mul (to_double x) FEE_RATE) FEE_DISCOUNT) = Fin s
    \<and> \<bar>s - x * (1 + 0.001425 * 0.28)\<bar> \<le> x / 2 ^ 51"
proof -
  from fee_close [OF assms] obtain b t
    where b: "to_double x = Fin b" "x - x / 2 ^ 53 \<le> b" "b \<le> x + x / 2 ^ 53"
      and t: "dbl_mul (dbl_mul (Fin b) FEE_RATE) FEE_DISCOUNT = Fin t"
        "x * (399 / 1000000) - x / 2 ^ 55 \<le> t" "t \<le> x * (399 / 1000000) + x / 2 ^ 55"
    by blast
  define y where "y = b + t"
  from b(2,3) t(2,3) have c5: "x * (1000399 / 1000000) - (x / 2 ^ 53 + x / 2 ^ 55) \<le> y"
    "y \<le> x * (1000399 / 1000000) + (x / 2 ^ 53 + x / 2 ^ 55)"
    by (simp_all add: y_def)
  with assms have r: "1 / 2 ^ 100 \<le> y" "y \<le> 2 ^ 100" and y2: "y \<le> 2 * x"
    by simp_all
  from to_double_close [OF r] obtain s
    where s: "to_double y = Fin s" "y - y / 2 ^ 53 \<le> s" "s \<le> y + y / 2 ^ 53"
    by blast
  from s(2,3) y2 have "y - x / 2 ^ 52 \<le> s" "s \<le> y + x / 2 ^ 52"
    by simp_all
  with c5 assms(1) have "s - x * (1000399 / 1000000) \<le> x / 2 ^ 51"
    "x * (1000399 / 1000000) - s \<le> x / 2 ^ 51"
    by simp_all
  then have "\<bar>s - x * (1000399 / 1000000)\<bar> \<le> x / 2 ^ 51"
    by linarith
  moreover have "x * (1 + 0.001425 * 0.28) = x * (1000399 / 1000000)"
    by simp
  ultimately have "\<bar>s - x * (1 + 0.001425 * 0.28)\<bar> \<le> x / 2 ^ 51"
    by (simp only:)
  moreover have "dbl_add (to_double x) (dbl_mul (dbl_mul (to_double x) FEE_RATE) FEE_DISCOUNT) = Fin s"
    using s(1) by (simp add: b(1) t(1) dbl_add_def y_def)
  ultimately show ?thesis by blast
qed

lemma presentValue_close:
  assumes "1 \<le> x" and "x \<le> 2 ^ 50"
  shows "\<exists>s. dbl_sub (dbl_sub (to_double x) (dbl_mul (dbl_mul (to_double x) FEE_RATE) FEE_DISCOUNT))
                (dbl_mul (to_double x) TAX_RATE_STOCK) = Fin s
    \<and> \<bar>s - x * (1 - 0.001425 * 0.28 - 0.001)\<bar> \<le> x / 2 ^ 51"
    and "\<exists>s. dbl_sub (dbl_sub (to_double x) (dbl_mul (dbl_mul (to_double x) FEE_RATE) FEE_DISCOUNT))
                (Fin 0) = Fin s
    \<and> \<bar>s - x * (1 - 0.001425 * 0.28 - 0)\<bar> \<le> x / 2 ^ 51"
proof -
  from fee_close [OF assms] obtain b t
    where b: "to_double x = Fin b" "x - x / 2 ^ 53 \<le> b" "b \<le> x + x / 2 ^ 53"
      and t: "dbl_mul (dbl_mul (Fin b) FEE_RATE) FEE_DISCOUNT = Fin t"
        "x * (399 / 1000000) - x / 2 ^ 55 \<le> t" "t \<le> x * (399 / 1000000) + x / 2 ^ 55"
    by blast
  from assms b(2) have b0: "0 \<le> b" by simp
  define y where "y = b - t"
  from b(2,3) t(2,3) have c5: "x * (999601 / 1000000) - (x / 2 ^ 53 + x / 2 ^ 55) \<le> y"
    "y \<le> x * (999601 / 1000000) + (x / 2 ^ 53 + x / 2 ^ 55)"
    by (simp_all add: y_def)
  with assms have r: "1 / 2 ^ 100 \<le> y" "y \<le> 2 ^ 100" and y2: "0 \<le> y" "y \<le> x"
    by simp_all
  from to_double_close [OF r] obtain d
    where d: "to_double y = Fin d" "y - y / 2 ^ 53 \<le> d" "d \<le> y + y / 2 ^ 53"
    by blast
  from d(2,3) y2 have "y - x / 2 ^ 53 \<le> d" "d \<le> y + x / 2 ^ 53"
    by simp_all
  with c5 have c6: "x * (999601 / 1000000) - (x / 2 ^ 52 + x / 2 ^ 55) \<le> d"
    "d \<le> x * (999601 / 1000000) + (x / 2 ^ 52 + x / 2 ^ 55)"
    by simp_all
  have ev: "dbl_sub (to_double x) (dbl_mul (dbl_mul (to_double x) FEE_RATE) FEE_DISCOUNT) = Fin d"
    using d(1) by (simp add: b(1) t(1) dbl_sub_def y_def)
  define z where "z = b * (1152921504606847 / 2 ^ 60)"
  from assms b(2,3) have "1 / 2 ^ 100 \<le> z" "z \<le> 2 ^ 100" by (simp_all add: z_def)
  from to_double_close [OF this] obtain tax
    where tax: "to_double z = Fin tax" "z - z / 2 ^ 53 \<le> tax" "tax \<le> z + z / 2 ^ 53"
    by blast
  from tax(2,3) b0 have "b * (1 / 1000 - 1 / 2 ^ 58) \<le> tax" "tax \<le> b * (1 / 1000 + 1 / 2 ^ 58)"
    by (simp_all add: z_def)
  with b(2,3) assms have c7: "x * (1 / 1000) - x / 2 ^ 55 \<le> tax" "tax \<le> x * (1 / 1000) + x / 2 ^ 55"
    by simp_all
  have evt: "dbl_mul (to_double x) TAX_RATE_STOCK = Fin tax"
    using tax(1) by (simp add: b(1) fee_constants dbl_mul_def z_def)
  define w where "w = d - tax"
  from c6 c7 have c8: "x * (998601 / 1000000) - (x / 2 ^ 52 + x / 2 ^ 54) \<le> w"
    "w \<le> x * (998601 / 1000000) + (x / 2 ^ 52 + x / 2 ^ 54)"
    by (simp_all add: w_def)
  with assms have rw: "1 / 2 ^ 100 \<le> w" "w \<le> 2 ^ 100" and w2: "0 \<le> w" "w \<le> x"
    by simp_all
  from to_double_close [OF rw] obtain s
    where s: "to_double w = Fin s" "w - w / 2 ^ 53 \<le> s" "s \<le> w + w / 2 ^ 53"
    by blast
  from s(2,3) w2 have "w - x / 2 ^ 53 \<le> s" "s \<le> w + x / 2 ^ 53"
    by simp_all
  with c8 assms(1) have "s - x * (998601 / 1000000) \<le> x / 2 ^ 51"
    "x * (998601 / 1000000) - s \<le> x / 2 ^ 51"
    by simp_all
  then have "\<bar>s - x * (998601 / 1000000)\<bar> \<le> x / 2 ^ 51"
    by linarith
  moreover have "x * (1 - 0.001425 * 0.28 - 0.001) = x * (998601 / 1000000)"
    by simp
  ultimately have "\<bar>s - x * (1 - 0.001425 * 0.28 - 0.001)\<bar> \<le> x / 2 ^ 51"
    by (simp only:)
  moreover have "dbl_sub (dbl_sub (to_double x) (dbl_mul (dbl_mul (to_double x) FEE_RATE) FEE_DISCOUNT))
                (dbl_mul (to_double x) TAX_RATE_STOCK) = Fin s"
    using s(1) unfolding ev evt by (simp add: dbl_sub_def w_def)
  ultimately show "\<exists>s. dbl_sub (dbl_sub (to_double x) (dbl_mul (dbl_mul (to_double x) FEE_RATE) FEE_DISCOUNT))
                (dbl_mul (to_double x) TAX_RATE_STOCK) = Fin s
    \<and> \<bar>s - x * (1 - 0.001425 * 0.28 - 0.001)\<bar> \<le> x / 2 ^ 51"
    by blast
  from c6 assms have rd: "1 / 2 ^ 100 \<le> d" "d \<le> 2 ^ 100" and d2: "0 \<le> d" "d \<le> x"
    by simp_all
  from to_double_close [OF rd] obtain s'
    where s': "to_double d = Fin s'" "d - d / 2 ^ 53 \<le> s'" "s' \<le> d + d / 2 ^ 53"
    by blast
  from s'(2,3) d2 have "d - x / 2 ^ 53 \<le> s'" "s' \<le> d + x / 2 ^ 53"
    by simp_all
  with c6 assms(1) have "s' - x * (999601 / 1000000) \<le> x / 2 ^ 51"
    "x * (999601 / 1000000) - s' \<le> x / 2 ^ 51"
    by simp_all
  then have "\<bar>s' - x * (999601 / 1000000)\<bar> \<le> x / 2 ^ 51"
    by linarith
  moreover have "x * (1 - 0.001425 * 0.28 - 0) = x * (999601 / 1000000)"
    by simp
  ultimately have "\<bar>s' - x * (1 - 0.001425 * 0.28 - 0)\<bar> \<le> x / 2 ^ 51"
    by (simp only:)
  moreover have "dbl_sub (dbl_sub (to_double x) (dbl_mul (dbl_mul (to_double x) FEE_RATE) FEE_DISCOUNT))
                (Fin 0) = Fin s'"
    using s'(1) unfolding ev by (simp add: dbl_sub_def)
  ultimately show "\<exists>s. dbl_sub (dbl_sub (to_double x) (dbl_mul (dbl_mul (to_double x) FEE_RATE) FEE_DISCOUNT))
                (Fin 0) = Fin s
    \<and> \<bar>s - x * (1 - 0.001425 * 0.28 - 0)\<bar> \<le> x / 2 ^ 51"
    by blast
qed

subsection \<open>The sample holdings, valued\<close>

text \<open>The prices of the sample holdings as doubles, and every step of their valuation.\<close>

lemma holding_0050:
  "quantity INITIAL_HOLDING_0050 = Fin 22000"
  "avgPrice INITIAL_HOLDING_0050 = Fin (8774982398954701 / 140737488355328)"
  "currentPrice INITIAL_HOLDING_0050 = Fin (4482489004117197 / 70368744177664)"
  "htype INITIAL_HOLDING_0050 = STOCK"
  by (simp_all add: INITIAL_HOLDING_0050_def double_defs)

lemma holding_00679B:
  "quantity INITIAL_HOLDING_00679B = Fin 45000"
  "avgPrice INITIAL_HOLDING_00679B = Fin (7774338856748319 / 281474976710656)"
  "currentPrice INITIAL_HOLDING_00679B = Fin (7675822614899589 / 281474976710656)"
  "htype INITIAL_HOLDING_00679B = BOND"
  by (simp_all add: INITIAL_HOLDING_00679B_def double_defs)

lemma holding_near_tie:
  "quantity NEAR_TIE_HOLDING = Fin 380831"
  "avgPrice NEAR_TIE_HOLDING = Fin (6850749089416479 / 35184372088832)"
  by (simp_all add: NEAR_TIE_HOLDING_def double_defs)

lemma holding_near_tie_quote:
  "quantity NEAR_TIE_QUOTE = Fin 438609"
  "currentPrice NEAR_TIE_QUOTE = Fin (1505099477030011 / 8796093022208)"
  "htype NEAR_TIE_QUOTE = STOCK"
  by (simp_all add: NEAR_TIE_QUOTE_def double_defs)

lemma steps_0050:
  "dbl_mul (Fin 22000) (Fin (8774982398954701 / 140737488355328)) = Fin 1371700"
  "dbl_mul (Fin 1371700) FEE_RATE = Fin (4298370284487967 / 2199023255552)"
  "dbl_mul (Fin (4298370284487967 / 2199023255552)) FEE_DISCOUNT = Fin (4814174718626523 / 8796093022208)"
  "dbl_add (Fin 1371700) (Fin (4814174718626523 / 8796093022208)) = Fin (5893757311172529 / 4294967296)"
  "dbl_mul (Fin 22000) (Fin (4482489004117197 / 70368744177664)) = Fin 1401400"
  "dbl_mul (Fin 1401400) FEE_RATE = Fin (8782876892442133 / 4398046511104)"
  "dbl_mul (Fin (8782876892442133 / 4398046511104)) FEE_DISCOUNT = Fin (4918411059767595 / 8796093022208)"
  "dbl_sub (Fin 1401400) (Fin (4918411059767595 / 8796093022208)) = Fin (6016565600714123 / 4294967296)"
  "dbl_mul (Fin 1401400) TAX_RATE_STOCK = Fin (3081711190330573 / 2199023255552)"
  "dbl_sub (Fin (6016565600714123 / 4294967296)) (Fin (3081711190330573 / 2199023255552)) = Fin (6010546633545509 / 4294967296)"
  by (simp_all add: fee_constants double_defs)

lemma steps_00679B:
  "dbl_mul (Fin 45000) (Fin (7774338856748319 / 281474976710656)) = Fin 1242900"
  "dbl_mul (Fin 1242900) FEE_RATE = Fin (3894761556163953 / 2199023255552)"
  "dbl_mul (Fin (3894761556163953 / 2199023255552)) FEE_DISCOUNT = Fin (1090533235725907 / 2199023255552)"
  "dbl_add (Fin 1242900) (Fin (1090533235725907 / 2199023255552)) = Fin (5340344799924427 / 4294967296)"
  "dbl_mul (Fin 45000) (Fin (7675822614899589 / 281474976710656)) = Fin 1227150"
  "dbl_mul (Fin 1227150) FEE_RATE = Fin (7690814455944315 / 4398046511104)"
  "dbl_mul (Fin (7690814455944315 / 4398046511104)) FEE_DISCOUNT = Fin (4306856095328817 / 8796093022208)"
  "dbl_sub (Fin 1227150) (Fin (4306856095328817 / 8796093022208)) = Fin (5268466160208603 / 4294967296)"
  "dbl_sub (Fin (5268466160208603 / 4294967296)) (Fin 0) = Fin (5268466160208603 / 4294967296)"
  by (simp_all add: fee_constants double_defs)

lemma steps_near_tie:
  "dbl_mul (Fin 380831) (Fin (6850749089416479 / 35184372088832)) = Fin (4976229908888945 / 67108864)"
  "dbl_mul (Fin (4976229908888945 / 67108864)) FEE_RATE = Fin (7261314683050749 / 68719476736)"
  "dbl_mul (Fin (7261314683050749 / 68719476736)) FEE_DISCOUNT = Fin (1016584055627105 / 34359738368)"
  "dbl_add (Fin (4976229908888945 / 67108864)) (Fin (1016584055627105 / 34359738368)) = Fin (148362381 / 2)"
  by (simp_all add: fee_constants double_defs)

lemma steps_near_tie_quote:
  "dbl_mul (Fin 438609) (Fin (1505099477030011 / 8796093022208)) = Fin (314784134159401 / 4194304)"
  "dbl_mul (Fin (314784134159401 / 4194304)) FEE_RATE = Fin (7349328137046367 / 68719476736)"
  "dbl_mul (Fin (7349328137046367 / 68719476736)) FEE_DISCOUNT = Fin (2057811878372983 / 68719476736)"
  "dbl_sub (Fin (314784134159401 / 4194304)) (Fin (2057811878372983 / 68719476736)) = Fin (2517268282318971 / 33554432)"
  "dbl_mul (Fin (314784134159401 / 4194304)) TAX_RATE_STOCK = Fin (2578711627033813 / 34359738368)"
  "dbl_sub (Fin (2517268282318971 / 33554432)) (Fin (2578711627033813 / 34359738368)) = Fin (149890781 / 2)"
  by (simp_all add: fee_constants double_defs)


lemmas valuation_defs = enrichHolding_def calculateCost_def calculatePresentValue_def Let_def

lemma enrich_0050:
  "cost (enrichHolding INITIAL_HOLDING_0050) = Fin 1372247"
  "presentValue (enrichHolding INITIAL_HOLDING_0050) = Fin 1399439"
  by (simp_all add: valuation_defs holding_0050 steps_0050 round_def)

lemma enrich_00679B:
  "cost (enrichHolding INITIAL_HOLDING_00679B) = Fin 1243396"
  "presentValue (enrichHolding INITIAL_HOLDING_00679B) = Fin 1226660"
  by (simp_all add: valuation_defs holding_00679B steps_00679B STOCK_def BOND_def round_def)

lemma enrich_near_tie: "cost (enrichHolding NEAR_TIE_HOLDING) = Fin 74181191"
  by (simp add: valuation_defs holding_near_tie steps_near_tie round_def)

lemma enrich_near_tie_quote: "presentValue (enrichHolding NEAR_TIE_QUOTE) = Fin 74945391"
  by (simp add: valuation_defs holding_near_tie_quote steps_near_tie_quote round_def)

lemma enrich_unpriced:
  "quantity UNPRICED_POSITION = Fin 0"
  "cost (enrichHolding UNPRICED_POSITION) = NaN"
  "presentValue (enrichHolding UNPRICED_POSITION) = Fin 0"
  "profit (enrichHolding UNPRICED_POSITION) = NaN"
  "roi (enrichHolding UNPRICED_POSITION) = NaN"
  by (simp_all add: valuation_defs UNPRICED_POSITION_def fee_constants double_defs round_def
      strict_eq_def minus_number_def)

lemma htype_enrichHolding [simp]: "htype (enrichHolding h) = htype h"
  by (simp add: enrichHolding_def Let_def)

subsection \<open>Cost and present value\<close>

text \<open>
  Claim C1 as the specification states it: for every holding the derived cost is
  \<open>round (quantity * avgPrice * (1 + f))\<close> and the derived present value is
  \<open>round (quantity * currentPrice * (1 - f - t))\<close>, with
  \<open>f = 0.001425 * 0.28\<close>, and both are always integers. For 380831 units bought at
  194.71 the exact amount lies just below 74181190.5 and rounds to 74181190, while the
  machine's sum is the double 74181190.5 and the derived cost is 74181191. For 438609
  units of a STOCK holding quoted at 171.11 the exact amount rounds to 74945390 and the
  derived present value is 74945391. For a position whose average price is not a number
  the derived cost is not a number either, and no integer.
\<close>

theorem enrich_cost_counterexample:
  "cost (enrichHolding NEAR_TIE_HOLDING) = Fin 74181191
   \<and> quantity NEAR_TIE_HOLDING = Fin 380831
   \<and> avgPrice NEAR_TIE_HOLDING = Fin (6850749089416479 / 2 ^ 45)
   \<and> round (380831 * (6850749089416479 / 2 ^ 45) * (1 + 0.001425 * 0.28) :: real) = 74181190
   \<and> round (380831 * 194.71 * (1 + 0.001425 * 0.28) :: real) = 74181190
   \<and> presentValue (enrichHolding NEAR_TIE_QUOTE) = Fin 74945391
   \<and> quantity NEAR_TIE_QUOTE = Fin 438609
   \<and> currentPrice NEAR_TIE_QUOTE = Fin (1505099477030011 / 2 ^ 43)
   \<and> htype NEAR_TIE_QUOTE = STOCK
   \<and> round (438609 * (1505099477030011 / 2 ^ 43) * (1 - 0.001425 * 0.28 - 0.001) :: real)
       = 74945390
   \<and> round (438609 * 171.11 * (1 - 0.001425 * 0.28 - 0.001) :: real) = 74945390
   \<and> \<not> is_integer (cost (enrichHolding UNPRICED_POSITION))"
  by (simp add: enrich_near_tie holding_near_tie enrich_near_tie_quote holding_near_tie_quote
      enrich_unpriced is_integer_def round_def)

text \<open>
  Claim C1, amended. For every holding whose quantity and prices are finite numbers with
  \<open>quantity * avgPrice\<close> and \<open>quantity * currentPrice\<close> between 1 and
  \<open>2 ^ 50\<close>: the derived cost is the rounding to the nearest integer, applied once,
  of a double \<open>s\<close> that differs from \<open>quantity * avgPrice * (1 + f)\<close> by at most
  \<open>quantity * avgPrice / 2 ^ 51\<close>, and the derived present value is the rounding,
  applied once, of a double \<open>r\<close> that differs from
  \<open>quantity * currentPrice * (1 - f - t)\<close> by at most
  \<open>quantity * currentPrice / 2 ^ 51\<close>, with \<open>f = 0.001425 * 0.28\<close>,
  \<open>t = 0.001\<close> for a STOCK holding and \<open>t = 0\<close> for a BOND holding. Both results
  are integers, and each differs by at most 1 from the rounding of the exact amount.
\<close>

theorem enrich_cost_presentValue:
  assumes "quantity h = Fin q" and "avgPrice h = Fin a" and "currentPrice h = Fin p"
    and "1 \<le> q * a" and "q * a \<le> 2 ^ 50" and "1 \<le> q * p" and "q * p \<le> 2 ^ 50"
  shows "\<exists>s r. cost (enrichHolding h) = Fin (of_int (round s))
       \<and> presentValue (enrichHolding h) = Fin (of_int (round r))
       \<and> \<bar>s - q * a * (1 + 0.001425 * 0.28)\<bar> \<le> q * a / 2 ^ 51
       \<and> \<bar>round s - round (q * a * (1 + 0.001425 * 0.28))\<bar> \<le> 1
       \<and> (htype h = STOCK \<longrightarrow>
            \<bar>r - q * p * (1 - 0.001425 * 0.28 - 0.001)\<bar> \<le> q * p / 2 ^ 51
            \<and> \<bar>round r - round (q * p * (1 - 0.001425 * 0.28 - 0.001))\<bar> \<le> 1)
       \<and> (htype h = BOND \<longrightarrow>
            \<bar>r - q * p * (1 - 0.001425 * 0.28 - 0)\<bar> \<le> q * p / 2 ^ 51
            \<and> \<bar>round r - round (q * p * (1 - 0.001425 * 0.28 - 0))\<bar> \<le> 1)
       \<and> is_integer (cost (enrichHolding h))
       \<and> is_integer (presentValue (enrichHolding h))"
proof -
  have half: "\<bar>u - v\<bar> \<le> 1" if "\<bar>u - v\<bar> \<le> x / 2 ^ 51" and "x \<le> 2 ^ 50" for u v x :: real
    using that by simp
  have base: "dbl_mul (quantity h) (avgPrice h) = to_double (q * a)"
    using assms(1,2) by (simp add: dbl_mul_def)
  have market: "dbl_mul (quantity h) (currentPrice h) = to_double (q * p)"
    using assms(1,3) by (simp add: dbl_mul_def)
  from cost_close [OF assms(4,5)] obtain s
    where s: "dbl_add (to_double (q * a))
                (dbl_mul (dbl_mul (to_double (q * a)) FEE_RATE) FEE_DISCOUNT) = Fin s"
      "\<bar>s - q * a * (1 + 0.001425 * 0.28)\<bar> \<le> q * a / 2 ^ 51"
    by blast
  from presentValue_close(1) [OF assms(6,7)] obtain r1
    where r1: "dbl_sub (dbl_sub (to_double (q * p))
                 (dbl_mul (dbl_mul (to_double (q * p)) FEE_RATE) FEE_DISCOUNT))
                 (dbl_mul (to_double (q * p)) TAX_RATE_STOCK) = Fin r1"
      "\<bar>r1 - q * p * (1 - 0.001425 * 0.28 - 0.001)\<bar> \<le> q * p / 2 ^ 51"
    by blast
  from presentValue_close(2) [OF assms(6,7)] obtain r2
    where r2: "dbl_sub (dbl_sub (to_double (q * p))
                 (dbl_mul (dbl_mul (to_double (q * p)) FEE_RATE) FEE_DISCOUNT)) (Fin 0) = Fin r2"
      "\<bar>r2 - q * p * (1 - 0.001425 * 0.28 - 0)\<bar> \<le> q * p / 2 ^ 51"
    by blast
  define r where "r = (if htype h = STOCK then r1 else r2)"
  have c: "cost (enrichHolding h) = Fin (of_int (round s))"
    by (simp add: enrichHolding_def calculateCost_def Let_def base s(1))
  have v: "presentValue (enrichHolding h) = Fin (of_int (round r))"
    by (simp add: enrichHolding_def calculatePresentValue_def Let_def market r1(1) r2(1) r_def)
  have cr: "\<bar>round s - round (q * a * (1 + 0.001425 * 0.28))\<bar> \<le> 1"
    by (rule round_close, rule half [OF s(2) assms(5)])
  have stock: "\<bar>r - q * p * (1 - 0.001425 * 0.28 - 0.001)\<bar> \<le> q * p / 2 ^ 51
      \<and> \<bar>round r - round (q * p * (1 - 0.001425 * 0.28 - 0.001))\<bar> \<le> 1"
    if "htype h = STOCK"
  proof -
    from that have "r = r1" by (simp add: r_def)
    with r1(2) have b: "\<bar>r - q * p * (1 - 0.001425 * 0.28 - 0.001)\<bar> \<le> q * p / 2 ^ 51"
      by simp
    moreover have "\<bar>round r - round (q * p * (1 - 0.001425 * 0.28 - 0.001))\<bar> \<le> 1"
      by (rule round_close, rule half [OF b assms(7)])
    ultimately show ?thesis ..
  qed
  have bond: "\<bar>r - q * p * (1 - 0.001425 * 0.28 - 0)\<bar> \<le> q * p / 2 ^ 51
      \<and> \<bar>round r - round (q * p * (1 - 0.001425 * 0.28 - 0))\<bar> \<le> 1"
    if "htype h = BOND"
  proof -
    from that have "r = r2" by (simp add: r_def STOCK_def BOND_def)
    with r2(2) have b: "\<bar>r - q * p * (1 - 0.001425 * 0.28 - 0)\<bar> \<le> q * p / 2 ^ 51"
      by simp
    moreover have "\<bar>round r - round (q * p * (1 - 0.001425 * 0.28 - 0))\<bar> \<le> 1"
      by (rule round_close, rule half [OF b assms(7)])
    ultimately show ?thesis ..
  qed
  have ic: "is_integer (cost (enrichHolding h))"
    by (simp add: c is_integer_def)
  have iv: "is_integer (presentValue (enrichHolding h))"
    by (simp add: v is_integer_def)
  from c v s(2) cr stock bond ic iv show ?thesis
    by blast
qed

theorem enrich_cost_presentValue_witness:
  "\<exists>(s::real) (r::real). cost (enrichHolding INITIAL_HOLDING_00679B) = Fin (of_int (round s))
     \<and> presentValue (enrichHolding INITIAL_HOLDING_00679B) = Fin (of_int (round r))
     \<and> \<bar>round s - 1243396\<bar> \<le> 1 \<and> \<bar>round r - 1226660\<bar> \<le> 1
     \<and> is_integer (cost (enrichHolding INITIAL_HOLDING_00679B))
     \<and> is_integer (presentValue (enrichHolding INITIAL_HOLDING_00679B))"
proof -
  have x: "(1::real) \<le> 45000 * (7774338856748319 / 281474976710656)"
    "45000 * (7774338856748319 / 281474976710656) \<le> (2::real) ^ 50"
    "(1::real) \<le> 45000 * (7675822614899589 / 281474976710656)"
    "45000 * (7675822614899589 / 281474976710656) \<le> (2::real) ^ 50"
    by simp_all
  have e: "round (45000 * (7774338856748319 / 281474976710656) * (1 + 0.001425 * 0.28) :: real)
      = 1243396"
    "round (45000 * (7675822614899589 / 281474976710656) * (1 - 0.001425 * 0.28 - 0) :: real)
      = 1226660"
    by (simp_all add: round_def)
  from enrich_cost_presentValue [OF holding_00679B(1,2,3) x, unfolded e]
  obtain s :: real where "\<exists>r :: real. cost (enrichHolding INITIAL_HOLDING_00679B) = Fin (of_int (round s))
      \<and> presentValue (enrichHolding INITIAL_HOLDING_00679B) = Fin (of_int (round r))
      \<and> \<bar>s - 45000 * (7774338856748319 / 281474976710656) * (1 + 0.001425 * 0.28)\<bar>
          \<le> 45000 * (7774338856748319 / 281474976710656) / 2 ^ 51
      \<and> \<bar>round s - 1243396\<bar> \<le> 1
      \<and> (htype INITIAL_HOLDING_00679B = STOCK \<longrightarrow>
            \<bar>r - 45000 * (7675822614899589 / 281474976710656) * (1 - 0.001425 * 0.28 - 0.001)\<bar>
              \<le> 45000 * (7675822614899589 / 281474976710656) / 2 ^ 51
            \<and> \<bar>round r - round (45000 * (7675822614899589 / 281474976710656)
                  * (1 - 0.001425 * 0.28 - 0.001) :: real)\<bar> \<le> 1)
      \<and> (htype INITIAL_HOLDING_00679B = BOND \<longrightarrow>
            \<bar>r - 45000 * (7675822614899589 / 281474976710656) * (1 - 0.001425 * 0.28 - 0)\<bar>
              \<le> 45000 * (7675822614899589 / 281474976710656) / 2 ^ 51
            \<and> \<bar>round r - 1226660\<bar> \<le> 1)
      \<and> is_integer (cost (enrichHolding INITIAL_HOLDING_00679B))
      \<and> is_integer (presentValue (enrichHolding INITIAL_HOLDING_00679B))" ..
  then obtain r :: real where w: "cost (enrichHolding INITIAL_HOLDING_00679B) = Fin (of_int (round s))
      \<and> presentValue (enrichHolding INITIAL_HOLDING_00679B) = Fin (of_int (round r))
      \<and> \<bar>s - 45000 * (7774338856748319 / 281474976710656) * (1 + 0.001425 * 0.28)\<bar>
          \<le> 45000 * (7774338856748319 / 281474976710656) / 2 ^ 51
      \<and> \<bar>round s - 1243396\<bar> \<le> 1
      \<and> (htype INITIAL_HOLDING_00679B = STOCK \<longrightarrow>
            \<bar>r - 45000 * (7675822614899589 / 281474976710656) * (1 - 0.001425 * 0.28 - 0.001)\<bar>
              \<le> 45000 * (7675822614899589 / 281474976710656) / 2 ^ 51
            \<and> \<bar>round r - round (45000 * (7675822614899589 / 281474976710656)
                  * (1 - 0.001425 * 0.28 - 0.001) :: real)\<bar> \<le> 1)
      \<and> (htype INITIAL_HOLDING_00679B = BOND \<longrightarrow>
            \<bar>r - 45000 * (7675822614899589 / 281474976710656) * (1 - 0.001425 * 0.28 - 0)\<bar>
              \<le> 45000 * (7675822614899589 / 281474976710656) / 2 ^ 51
            \<and> \<bar>round r - 1226660\<bar> \<le> 1)
      \<and> is_integer (cost (enrichHolding INITIAL_HOLDING_00679B))
      \<and> is_integer (presentValue (enrichHolding INITIAL_HOLDING_00679B))" ..
  from w have 1: "cost (enrichHolding INITIAL_HOLDING_00679B) = Fin (of_int (round s))"
    and 2: "presentValue (enrichHolding INITIAL_HOLDING_00679B) = Fin (of_int (round r))"
    and 3: "\<bar>round s - 1243396\<bar> \<le> 1"
    and 5: "is_integer (cost (enrichHolding INITIAL_HOLDING_00679B))"
    and 6: "is_integer (presentValue (enrichHolding INITIAL_HOLDING_00679B))"
    by (simp_all add: is_integer_def)
  from w holding_00679B(4) have 4: "\<bar>round r - 1226660\<bar> \<le> 1"
    by simp
  show ?thesis
  proof (intro exI conjI)
    show "cost (enrichHolding INITIAL_HOLDING_00679B) = Fin (of_int (round s))" by (rule 1)
    show "presentValue (enrichHolding INITIAL_HOLDING_00679B) = Fin (of_int (round r))" by (rule 2)
    show "\<bar>round s - 1243396\<bar> \<le> 1" by (rule 3)
    show "\<bar>round r - 1226660\<bar> \<le> 1" by (rule 4)
    show "is_integer (cost (enrichHolding INITIAL_HOLDING_00679B))" by (rule 5)
    show "is_integer (presentValue (enrichHolding INITIAL_HOLDING_00679B))" by (rule 6)
  qed
qed

text \<open>
  Claim C2 as the specification states it: for the holding of 22000 units of 0050 bought
  at 62.35 and quoted at 63.7, cost 1372248 and present value 1399440. The code gives
  neither value.
\<close>

theorem scenario_0050_counterexample:
  "\<not> (cost (enrichHolding INITIAL_HOLDING_0050) = Fin 1372248
      \<and> presentValue (enrichHolding INITIAL_HOLDING_0050) = Fin 1399440)"
  by (simp add: enrich_0050)

text \<open>
  Claim C2, amended: for that holding the derived cost is 1372247 and the derived present
  value is 1399439 (the fee on the cost side is 547.3083, on the value side 559.1586).
\<close>

theorem scenario_0050_values:
  "cost (enrichHolding INITIAL_HOLDING_0050) = Fin 1372247
   \<and> presentValue (enrichHolding INITIAL_HOLDING_0050) = Fin 1399439"
  by (simp add: enrich_0050)

subsection \<open>Zero quantity and zero cost\<close>

text \<open>
  Claim C3 as the specification states it: every holding with quantity 0 is enriched to
  cost 0, present value 0, profit 0 and return 0. A position of 0 units whose average
  price is not a number, as the import stores it for a price text that does not parse, is
  enriched to a cost, a profit and a return that are not numbers.
\<close>

theorem enrich_zero_quantity_counterexample:
  "quantity UNPRICED_POSITION = Fin 0
   \<and> cost (enrichHolding UNPRICED_POSITION) = NaN
   \<and> cost (enrichHolding UNPRICED_POSITION) \<noteq> Fin 0
   \<and> profit (enrichHolding UNPRICED_POSITION) = NaN
   \<and> roi (enrichHolding UNPRICED_POSITION) = NaN"
  by (simp add: enrich_unpriced)

text \<open>
  Claim C3, amended. A holding with quantity 0 and finite prices is enriched to cost 0,
  present value 0, profit 0 and return 0; and for every holding, whenever the derived cost
  is 0 the return is 0, whatever the profit.
\<close>

theorem enrich_zero_quantity_and_zero_cost:
  "(quantity h = Fin 0 \<and> avgPrice h = Fin a \<and> currentPrice h = Fin p \<longrightarrow>
      cost (enrichHolding h) = Fin 0 \<and> presentValue (enrichHolding h) = Fin 0
      \<and> profit (enrichHolding h) = Fin 0 \<and> roi (enrichHolding h) = Fin 0)
   \<and> (cost (enrichHolding h) = Fin 0 \<longrightarrow> roi (enrichHolding h) = Fin 0)"
  by (simp add: enrichHolding_def calculateCost_def calculatePresentValue_def fee_constants
      dbl_add_def dbl_sub_def dbl_mul_def to_double_def Let_def)

theorem enrich_zero_quantity_and_zero_cost_witness:
  "quantity EMPTY_POSITION = Fin 0
   \<and> cost (enrichHolding EMPTY_POSITION) = Fin 0
   \<and> presentValue (enrichHolding EMPTY_POSITION) = Fin 0
   \<and> profit (enrichHolding EMPTY_POSITION) = Fin 0
   \<and> roi (enrichHolding EMPTY_POSITION) = Fin 0"
proof -
  have h: "quantity EMPTY_POSITION = Fin 0"
    "avgPrice EMPTY_POSITION = Fin (8774982398954701 / 140737488355328)"
    "currentPrice EMPTY_POSITION = Fin (4482489004117197 / 70368744177664)"
    by (simp_all add: EMPTY_POSITION_def double_defs)
  from enrich_zero_quantity_and_zero_cost
    [of EMPTY_POSITION "8774982398954701 / 140737488355328" "4482489004117197 / 70368744177664"] h
  show ?thesis
    by simp
qed

subsection \<open>Portfolio summary\<close>

text \<open>
  Claim C4. For every list of calculated holdings and every cash amount: the stock value
  is the sum of the present values of the STOCK holdings, the bond value that of the BOND
  holdings, the total cost the sum of all costs, total assets are stock value plus bond
  value plus cash, total profit is the invested value minus the total cost, the total
  return is 0 when the total cost is 0 and profit / cost * 100 otherwise; with no
  holdings and a cash amount of 1000000 the total assets are 1000000 and both ratios and
  the total return are 0.
\<close>

theorem summary_totals:
  "stockValue (summary hs c) = sum_list (map presentValue (filter (\<lambda>h. htype h = STOCK) hs))
   \<and> bondValue (summary hs c) = sum_list (map presentValue (filter (\<lambda>h. htype h = BOND) hs))
   \<and> totalCost (summary hs c) = sum_list (map cost hs)
   \<and> totalAssets (summary hs c)
       = stockValue (summary hs c) + bondValue (summary hs c) + c
   \<and> totalProfit (summary hs c)
       = (stockValue (summary hs c) + bondValue (summary hs c)) - totalCost (summary hs c)
   \<and> totalRoi (summary hs c)
       = (if strict_eq (totalCost (summary hs c)) (Fin 0) then Fin 0
          else totalProfit (summary hs c) / totalCost (summary hs c) * Fin 100)
   \<and> totalAssets (summary [] (Fin 1000000)) = Fin 1000000
   \<and> stockRatio (summary [] (Fin 1000000)) = Fin 0
   \<and> bondRatio (summary [] (Fin 1000000)) = Fin 0
   \<and> totalRoi (summary [] (Fin 1000000)) = Fin 0"
  by (simp add: summary_def Let_def reduce_sum_eq zero_number_def)

text \<open>
  Claim C5. For every summary with finite stock and bond values: when their sum is
  positive the two ratios add up to 100, and when it is 0 both ratios are 0.
\<close>

theorem summary_ratios:
  assumes "stockValue (summary hs c) = Fin S" and "bondValue (summary hs c) = Fin B"
  shows "(S + B > 0 \<longrightarrow> stockRatio (summary hs c) + bondRatio (summary hs c) = Fin 100)
       \<and> (S + B = 0 \<longrightarrow> stockRatio (summary hs c) = Fin 0
                        \<and> bondRatio (summary hs c) = Fin 0)"
proof -
  have r: "S / (S + B) * 100 + B / (S + B) * 100 = 100" if "S + B > 0"
  proof -
    have "S / (S + B) + B / (S + B) = 1"
      using that by (simp add: add_divide_distrib [symmetric])
    then have "(S / (S + B) + B / (S + B)) * 100 = 100"
      by simp
    then show ?thesis
      by (simp only: distrib_right)
  qed
  show ?thesis
    using assms r
    by (auto simp add: summary_def Let_def)
qed

theorem summary_ratios_witness:
  "stockValue (summary TWO_CLASS_HOLDINGS (Fin 1000000)) = Fin 1399439
   \<and> bondValue (summary TWO_CLASS_HOLDINGS (Fin 1000000)) = Fin 1226660
   \<and> stockRatio (summary TWO_CLASS_HOLDINGS (Fin 1000000))
       + bondRatio (summary TWO_CLASS_HOLDINGS (Fin 1000000)) = Fin 100"
proof -
  have s: "stockValue (summary TWO_CLASS_HOLDINGS (Fin 1000000)) = Fin 1399439"
    by (simp add: summary_def TWO_CLASS_HOLDINGS_def reduce_sum_def Let_def enrich_0050
        enrich_00679B holding_0050 holding_00679B STOCK_def BOND_def)
  have b: "bondValue (summary TWO_CLASS_HOLDINGS (Fin 1000000)) = Fin 1226660"
    by (simp add: summary_def TWO_CLASS_HOLDINGS_def reduce_sum_def Let_def enrich_0050
        enrich_00679B holding_0050 holding_00679B STOCK_def BOND_def)
  from summary_ratios [OF s b] s b show ?thesis
    by simp
qed

subsection \<open>Rebalancing\<close>

text \<open>
  Claim C6. For non-negative stock value \<open>S\<close> and bond value \<open>B\<close> with
  \<open>T = S + B > 0\<close> and \<open>diff = 0.6 * T - S\<close>: the switch amount is
  \<open>|diff|\<close>, the action buy-stock when \<open>diff > 0\<close> and buy-bond otherwise;
  the inflow amount is \<open>diff / 0.4\<close> when \<open>diff > 0\<close> and
  \<open>(0.4 * T - B) / 0.6\<close> otherwise; both amounts are non-negative; adding the inflow
  amount to the underweight class alone brings the stock fraction to exactly 0.6; and when
  \<open>T = 0\<close> the no-position sentinel is returned.
\<close>

theorem rebalancing_suggestion:
  assumes "stockValue s = Fin S" and "bondValue s = Fin B" and "S \<ge> 0" and "B \<ge> 0"
  shows "(S + B > 0 \<longrightarrow>
           (\<exists>r. rebalancingCalculations s = Suggestion r
              \<and> diff r = Fin (0.6 * (S + B) - S)
              \<and> switchAmount r = Fin \<bar>0.6 * (S + B) - S\<bar>
              \<and> switchAction r = (if 0.6 * (S + B) - S > 0 then ''buy_stock'' else ''buy_bond'')
              \<and> inflowAmount r = (if 0.6 * (S + B) - S > 0
                                  then Fin ((0.6 * (S + B) - S) / 0.4)
                                  else Fin ((0.4 * (S + B) - B) / 0.6))
              \<and> Fin 0 \<le> switchAmount r \<and> Fin 0 \<le> inflowAmount r
              \<and> (if 0.6 * (S + B) - S > 0
                  then (Fin S + inflowAmount r) / (Fin S + Fin B + inflowAmount r) = Fin 0.6
                  else Fin S / (Fin S + Fin B + inflowAmount r) = Fin 0.6)))
       \<and> (S + B = 0 \<longrightarrow> rebalancingCalculations s = NoPositions ''none'' (Fin 0) NO_POSITION_TEXT)"
proof -
  let ?d = "0.6 * (S + B) - S"
  have up: "(S + ?d / 0.4) / (S + B + ?d / 0.4) = 0.6" "S + B + ?d / 0.4 \<noteq> 0" "?d / 0.4 \<ge> 0"
    if "?d > 0"
  proof -
    from that assms(3) have "S + B > 0" by simp
    with that show "S + B + ?d / 0.4 \<noteq> 0" by (simp add: field_simps)
    then show "(S + ?d / 0.4) / (S + B + ?d / 0.4) = 0.6"
      by (simp add: field_simps)
    from that show "?d / 0.4 \<ge> 0" by simp
  qed
  have down: "S / (S + B + (0.4 * (S + B) - B) / 0.6) = 0.6"
    "S + B + (0.4 * (S + B) - B) / 0.6 \<noteq> 0" "(0.4 * (S + B) - B) / 0.6 \<ge> 0"
    if "\<not> ?d > 0" and "S + B > 0"
  proof -
    from that have S: "S > 0" by simp
    have e: "S + B + (0.4 * (S + B) - B) / 0.6 = S / 0.6" by (simp add: field_simps)
    from S show "S + B + (0.4 * (S + B) - B) / 0.6 \<noteq> 0" unfolding e by simp
    from S show "S / (S + B + (0.4 * (S + B) - B) / 0.6) = 0.6" unfolding e by simp
    from that show "(0.4 * (S + B) - B) / 0.6 \<ge> 0" by simp
  qed
  have pos: ?thesis if "S + B > 0" "?d > 0"
    using that assms up
    by (simp add: rebalancingCalculations_def Let_def)
  have neg: ?thesis if "S + B > 0" "\<not> ?d > 0"
    using that assms down
    by (simp add: rebalancingCalculations_def Let_def)
  have zero: ?thesis if "\<not> S + B > 0"
    using that assms
    by (simp add: rebalancingCalculations_def Let_def)
  from pos neg zero show ?thesis by blast
qed

theorem rebalancing_suggestion_witness:
  "\<exists>r. rebalancingCalculations UNDERWEIGHT_STOCK = Suggestion r
      \<and> switchAmount r = Fin 100000 \<and> switchAction r = ''buy_stock''
      \<and> inflowAmount r = Fin 250000
      \<and> (Fin 500000 + inflowAmount r) / (Fin 500000 + Fin 500000 + inflowAmount r) = Fin 0.6"
proof -
  have h: "stockValue UNDERWEIGHT_STOCK = Fin 500000" "bondValue UNDERWEIGHT_STOCK = Fin 500000"
    "(500000::real) \<ge> 0" "(500000::real) \<ge> 0"
    by (simp_all add: UNDERWEIGHT_STOCK_def)
  from rebalancing_suggestion [OF h] show ?thesis
    by auto
qed

section \<open>Properties of the yearly dividend performance\<close>

text \<open>The definitions that evaluate the string functions and the number parser.\<close>

lemmas string_defs = LF_def CR_def DQ_def is_ws_def trim_def startsWith_def endsWith_def
  is_digit_def digit_val_def digits_value_def parse_sign_def parse_exponent_def scale10_def
  parseFloat_def

text \<open>
  Claim C7. The claim: after the first year the reported growth is
  \<open>(amount - prevAmount) / prevAmount * 100\<close> when the previous total is positive,
  and in every other case the sentinel \<open>-\<close>, never 0. With dividend records of
  amount 0 in 2023 and amount 100 in 2024, the yearly table of the dividend tracker (rows
  newest first) reports for 2024 the text of \<open>0\<close> to one decimal followed by
  \<open>%\<close>, not the sentinel; the CSV export writes the sentinel in the row of the same
  two totals.
\<close>

theorem yearly_table_zero_previous_total:
  "map (growth_cell H) (yearlyPerformance (yearlyTrendData ZERO_THEN_100 ''ALL''))
     = [toFixed H 1 (Fin 0) @ ''%'', ''-'']
   \<and> toFixed H 1 (Fin 0) @ ''%'' \<noteq> ''-''
   \<and> yearly_row H [(Fin 2023, Fin 0), (Fin 2024, Fin 100)] [Fin 2023, Fin 2024] 1
       = numToString H (Fin 2024) @ '','' @ numToString H (Fin 100) @ '','' @ ''-'' @ '',''
         @ numToString H (Fin 100)"
  by (simp add: growth_cell_def yearlyPerformance_def yearlyTrendData_def ZERO_THEN_100_def
      add_to_year_def js_sort_def parseInt_def string_defs yearly_row_def or_zero_def
      truthy_def Let_def)

section \<open>Properties of the CSV import\<close>

text \<open>The definitions that evaluate the parser of the import.\<close>

lemmas import_defs = parse_csv_def import_line_def import_holding_line_def
  import_dividend_line_def initial_parse_state_def isNaN_def

subsection \<open>The sample files, parsed\<close>

lemma parse_only_zero_cash:
  "parse_csv ONLY_ZERO_CASH_CSV
     = \<lparr> curSection = ''CASH'', tempCash = Some (Fin 0), tempHoldings = [], tempDividends = [] \<rparr>"
  by (simp add: ONLY_ZERO_CASH_CSV_def string_defs import_defs Let_def)

lemma parse_only_cash:
  "parse_csv ONLY_CASH_CSV
     = \<lparr> curSection = ''CASH'', tempCash = Some (Fin 250000), tempHoldings = [], tempDividends = [] \<rparr>"
  by (simp add: ONLY_CASH_CSV_def string_defs import_defs Let_def)

lemma parse_short_row:
  "parse_csv SHORT_ROW_CSV
     = \<lparr> curSection = ''HOLDINGS'', tempCash = None,
         tempHoldings = [\<lparr> hid = ''2'', name = ''B'', code = ''0056'', htype = ''STOCK'',
                           quantity = Fin 10, avgPrice = Fin 2.5, currentPrice = Fin 3 \<rparr>],
         tempDividends = [] \<rparr>"
  by (simp add: SHORT_ROW_CSV_def string_defs import_defs Let_def)

lemma parse_unparseable_row:
  "parse_csv UNPARSEABLE_ROW_CSV
     = \<lparr> curSection = ''HOLDINGS'', tempCash = None,
         tempHoldings = [\<lparr> hid = ''1'', name = ''A'', code = ''0050'', htype = ''STOCK'',
                           quantity = NaN, avgPrice = Fin 2.5, currentPrice = Fin 3 \<rparr>],
         tempDividends = [] \<rparr>"
  by (simp add: UNPARSEABLE_ROW_CSV_def string_defs import_defs Let_def)

lemma parse_partial_rows:
  "parse_csv PARTIAL_ROWS_CSV
     = \<lparr> curSection = ''DIVIDENDS'', tempCash = None, tempHoldings = [],
         tempDividends = [\<lparr> did = ''8'', date = ''2023-11-15'', exDividendDate = None,
                            ticker = ''00878'', amount = Fin 12000, dnote = Some ''bonus'' \<rparr>] \<rparr>"
  by (simp add: PARTIAL_ROWS_CSV_def string_defs import_defs Let_def)

subsection \<open>The validity guard\<close>

text \<open>The cash value kept while parsing is never \<open>NaN\<close>.\<close>

lemma import_line_cash_not_nan:
  "tempCash ps \<noteq> Some NaN \<Longrightarrow> tempCash (import_line ps line) \<noteq> Some NaN"
  by (simp add: import_line_def import_holding_line_def import_dividend_line_def isNaN_def
      Let_def split: option.splits)

lemma foldl_import_line_cash_not_nan:
  "tempCash ps \<noteq> Some NaN \<Longrightarrow> tempCash (foldl import_line ps ls) \<noteq> Some NaN"
  by (induction ls arbitrary: ps) (simp_all add: import_line_cash_not_nan)

lemma parse_csv_cash_not_nan: "tempCash (parse_csv csv) \<noteq> Some NaN"
  unfolding parse_csv_def
  by (rule foldl_import_line_cash_not_nan) (simp add: initial_parse_state_def)

lemma not_cash_iff: "c \<noteq> Some NaN \<Longrightarrow> not_cash c \<longleftrightarrow> c = None \<or> c = Some (Fin 0)"
  by (cases c) (auto simp add: not_cash_def truthy_def)

text \<open>
  Claim C10. When a file parses to no holdings row and no dividend row, and its cash
  section parses to 0, the import is rejected and the state is unchanged, as it is when
  there is no cash value at all: the guard tests the cash value for truthiness. With any
  other cash value the file is accepted: once the user confirms the prompt, the import
  succeeds and sets cash to that value (holdings and dividend records become empty); when
  the user declines, nothing changes.
\<close>

theorem import_cash_truthiness_guard:
  assumes "tempHoldings (parse_csv csv) = []" and "tempDividends (parse_csv csv) = []"
  shows "(tempCash (parse_csv csv) = Some (Fin 0) \<longrightarrow>
            handleImportCSV csv confirmed st = (ImportFailed, st))
       \<and> (tempCash (parse_csv csv) = None \<longrightarrow>
            handleImportCSV csv confirmed st = (ImportFailed, st))
       \<and> (\<forall>v. tempCash (parse_csv csv) = Some v \<and> v \<noteq> Fin 0 \<longrightarrow>
            handleImportCSV csv True st
              = (ImportSucceeded, st\<lparr> holdings := [], dividendRecords := [], cash := v \<rparr>)
            \<and> handleImportCSV csv False st = (ImportDeclined, st))"
  using assms parse_csv_cash_not_nan [of csv]
  by (auto simp add: handleImportCSV_def not_cash_def truthy_def Let_def)

theorem import_cash_truthiness_guard_witness:
  "handleImportCSV ONLY_ZERO_CASH_CSV True SAMPLE_STATE = (ImportFailed, SAMPLE_STATE)
   \<and> handleImportCSV ONLY_CASH_CSV True SAMPLE_STATE
       = (ImportSucceeded,
          SAMPLE_STATE\<lparr> holdings := [], dividendRecords := [], cash := Fin 250000 \<rparr>)"
proof -
  have z: "tempHoldings (parse_csv ONLY_ZERO_CASH_CSV) = []"
    "tempDividends (parse_csv ONLY_ZERO_CASH_CSV) = []"
    "tempCash (parse_csv ONLY_ZERO_CASH_CSV) = Some (Fin 0)"
    by (simp_all add: parse_only_zero_cash)
  have c: "tempHoldings (parse_csv ONLY_CASH_CSV) = []"
    "tempDividends (parse_csv ONLY_CASH_CSV) = []"
    "tempCash (parse_csv ONLY_CASH_CSV) = Some (Fin 250000)"
    by (simp_all add: parse_only_cash)
  from import_cash_truthiness_guard [OF z(1,2), of True SAMPLE_STATE] z(3)
  have 1: "handleImportCSV ONLY_ZERO_CASH_CSV True SAMPLE_STATE = (ImportFailed, SAMPLE_STATE)"
    by simp
  from import_cash_truthiness_guard [OF c(1,2), of True SAMPLE_STATE] c(3)
  have 2: "handleImportCSV ONLY_CASH_CSV True SAMPLE_STATE
       = (ImportSucceeded,
          SAMPLE_STATE\<lparr> holdings := [], dividendRecords := [], cash := Fin 250000 \<rparr>)"
    by simp
  from 1 2 show ?thesis by simp
qed

subsection \<open>Malformed rows\<close>

text \<open>
  Claim C9 as the specification states it: every malformed file (unparseable numbers,
  missing columns) gives the format-invalid notification and leaves the state unchanged.
  A holdings section with one row of five fields and one complete row is imported: the
  short row is skipped, the complete row replaces the holdings, and the dividend records
  are replaced by the empty list. A holdings row whose quantity is the text \<open>abc\<close>
  is imported as well, under the success notification, with a quantity that is not a
  number.
\<close>

theorem import_malformed_counterexample:
  "handleImportCSV SHORT_ROW_CSV True SAMPLE_STATE \<noteq> (ImportFailed, SAMPLE_STATE)
   \<and> handleImportCSV SHORT_ROW_CSV True SAMPLE_STATE
       = (ImportSucceeded,
          \<lparr> holdings = [\<lparr> hid = ''2'', name = ''B'', code = ''0056'', htype = ''STOCK'',
                          quantity = Fin 10, avgPrice = Fin 2.5, currentPrice = Fin 3 \<rparr>],
            cash = Fin 1000000, dividendRecords = [] \<rparr>)
   \<and> handleImportCSV UNPARSEABLE_ROW_CSV True SAMPLE_STATE \<noteq> (ImportFailed, SAMPLE_STATE)
   \<and> handleImportCSV UNPARSEABLE_ROW_CSV True SAMPLE_STATE
       = (ImportSucceeded,
          \<lparr> holdings = [\<lparr> hid = ''1'', name = ''A'', code = ''0050'', htype = ''STOCK'',
                          quantity = NaN, avgPrice = Fin 2.5, currentPrice = Fin 3 \<rparr>],
            cash = Fin 1000000, dividendRecords = [] \<rparr>)"
  by (simp add: handleImportCSV_def parse_short_row parse_unparseable_row not_cash_def
      SAMPLE_STATE_def)

text \<open>
  Claim C9, amended. For every file in which each holdings row read has a quantity and
  prices that parse to numbers and each dividend row read has an amount that parses to a
  number, the import ends in one of three ways and never changes a part of the state
  only. When the file yields no holdings row, no dividend row and no cash value other
  than 0, it ends with the format-invalid notification and the state unchanged, whatever
  the answer to the confirmation prompt. Otherwise it ends, when the user confirms, with
  holdings and dividend records replaced by the rows read and cash by the cash value read
  (kept when none was read), and, when the user declines, with the state unchanged. A
  holdings line of fewer than seven fields and a dividends line of fewer than four commas
  are skipped without failing the import.
\<close>

theorem import_all_or_nothing:
  assumes "\<forall>h \<in> set (tempHoldings (parse_csv csv)).
             quantity h \<noteq> NaN \<and> avgPrice h \<noteq> NaN \<and> currentPrice h \<noteq> NaN"
    and "\<forall>r \<in> set (tempDividends (parse_csv csv)). amount r \<noteq> NaN"
  shows "(tempHoldings (parse_csv csv) = [] \<and> tempDividends (parse_csv csv) = []
          \<and> (tempCash (parse_csv csv) = None \<or> tempCash (parse_csv csv) = Some (Fin 0)) \<longrightarrow>
            handleImportCSV csv True st = (ImportFailed, st)
            \<and> handleImportCSV csv False st = (ImportFailed, st))
   \<and> (\<not> (tempHoldings (parse_csv csv) = [] \<and> tempDividends (parse_csv csv) = []
          \<and> (tempCash (parse_csv csv) = None \<or> tempCash (parse_csv csv) = Some (Fin 0))) \<longrightarrow>
            handleImportCSV csv True st
              = (ImportSucceeded,
                 \<lparr> holdings = tempHoldings (parse_csv csv),
                   cash = (case tempCash (parse_csv csv) of None \<Rightarrow> cash st | Some c \<Rightarrow> c),
                   dividendRecords = tempDividends (parse_csv csv) \<rparr>)
            \<and> handleImportCSV csv False st = (ImportDeclined, st))
   \<and> (curSection ps = ''HOLDINGS'' \<and> length (split_on (CHR '','') (trim line)) < 7 \<longrightarrow>
         tempHoldings (import_line ps line) = tempHoldings ps
         \<and> tempDividends (import_line ps line) = tempDividends ps
         \<and> tempCash (import_line ps line) = tempCash ps)
   \<and> (curSection ps = ''DIVIDENDS'' \<and> fourth_comma (trim line) 0 0 = None \<longrightarrow>
         tempHoldings (import_line ps line) = tempHoldings ps
         \<and> tempDividends (import_line ps line) = tempDividends ps
         \<and> tempCash (import_line ps line) = tempCash ps)"
proof -
  let ?p = "parse_csv csv"
  let ?nothing = "tempHoldings ?p = [] \<and> tempDividends ?p = []
      \<and> (tempCash ?p = None \<or> tempCash ?p = Some (Fin 0))"
  have g: "not_cash (tempCash ?p) \<longleftrightarrow> tempCash ?p = None \<or> tempCash ?p = Some (Fin 0)"
    by (rule not_cash_iff) (rule parse_csv_cash_not_nan)
  have guard: "(tempHoldings ?p = [] \<and> not_cash (tempCash ?p) \<and> tempDividends ?p = [])
      \<longleftrightarrow> ?nothing"
    using g by blast
  have failed: "handleImportCSV csv True st = (ImportFailed, st)
      \<and> handleImportCSV csv False st = (ImportFailed, st)"
    if "?nothing"
    using that guard by (simp add: handleImportCSV_def Let_def)
  have replaced: "handleImportCSV csv True st
        = (ImportSucceeded,
           \<lparr> holdings = tempHoldings ?p,
             cash = (case tempCash ?p of None \<Rightarrow> cash st | Some c \<Rightarrow> c),
             dividendRecords = tempDividends ?p \<rparr>)
      \<and> handleImportCSV csv False st = (ImportDeclined, st)"
    if "\<not> ?nothing"
  proof -
    from that guard
    have n: "\<not> (tempHoldings ?p = [] \<and> not_cash (tempCash ?p) \<and> tempDividends ?p = [])"
      by blast
    show ?thesis
      by (simp add: handleImportCSV_def Let_def n)
  qed
  have short: "tempHoldings (import_line ps line) = tempHoldings ps
         \<and> tempDividends (import_line ps line) = tempDividends ps
         \<and> tempCash (import_line ps line) = tempCash ps"
    if "curSection ps = ''HOLDINGS''" "length (split_on (CHR '','') (trim line)) < 7"
    using that by (simp add: import_line_def import_holding_line_def Let_def)
  have few: "tempHoldings (import_line ps line) = tempHoldings ps
         \<and> tempDividends (import_line ps line) = tempDividends ps
         \<and> tempCash (import_line ps line) = tempCash ps"
    if "curSection ps = ''DIVIDENDS''" "fourth_comma (trim line) 0 0 = None"
    using that by (simp add: import_line_def import_dividend_line_def Let_def)
  from failed replaced short few show ?thesis by blast
qed

theorem import_all_or_nothing_witness:
  "handleImportCSV PARTIAL_ROWS_CSV True SAMPLE_STATE
     = (ImportSucceeded,
        \<lparr> holdings = [], cash = Fin 1000000,
          dividendRecords = [\<lparr> did = ''8'', date = ''2023-11-15'', exDividendDate = None,
                               ticker = ''00878'', amount = Fin 12000, dnote = Some ''bonus'' \<rparr>] \<rparr>)
   \<and> handleImportCSV PARTIAL_ROWS_CSV False SAMPLE_STATE = (ImportDeclined, SAMPLE_STATE)
   \<and> handleImportCSV ONLY_ZERO_CASH_CSV True SAMPLE_STATE = (ImportFailed, SAMPLE_STATE)
   \<and> handleImportCSV ONLY_ZERO_CASH_CSV False SAMPLE_STATE = (ImportFailed, SAMPLE_STATE)"
  using import_all_or_nothing [of PARTIAL_ROWS_CSV SAMPLE_STATE]
    import_all_or_nothing [of ONLY_ZERO_CASH_CSV SAMPLE_STATE]
  by (simp add: parse_partial_rows parse_only_zero_cash SAMPLE_STATE_def)

section \<open>Properties of the CSV export followed by the import\<close>

subsection \<open>Lines\<close>










subsection \<open>Trimming\<close>






lemma import_line_header [simp]:
  "import_line ps ''[SUMMARY]'' = ps\<lparr> curSection := ''SUMMARY'' \<rparr>"
  "import_line ps ''[CASH]'' = ps\<lparr> curSection := ''CASH'' \<rparr>"
  "import_line ps ''[HOLDINGS]'' = ps\<lparr> curSection := ''HOLDINGS'' \<rparr>"
  "import_line ps ''[DIVIDENDS]'' = ps\<lparr> curSection := ''DIVIDENDS'' \<rparr>"
  "import_line ps ''[YEARLY_PERFORMANCE]'' = ps\<lparr> curSection := ''YEARLY_PERFORMANCE'' \<rparr>"
  by (simp_all add: import_line_def trim_def is_ws_def)


subsection \<open>Fields\<close>








subsection \<open>Rows\<close>







subsection \<open>One line feed per line\<close>

lemma LF_literal [simp]:
  "LF \<noteq> CHR '',''" "LF \<noteq> CHR ''%''" "LF \<noteq> CHR ''-''" "LF \<noteq> DQ"
  by (simp_all add: LF_def DQ_def)







subsection \<open>Sections\<close>






subsection \<open>The exported file, read back\<close>



subsection \<open>The sample states\<close>






subsection \<open>Round trip\<close>






end
